theory Spec2Isabelle
  imports Main
begin

section \<open>Strings of the JavaScript runtime\<close>

text \<open>
  The analyser is TypeScript running on Node.js. Its strings are modelled as HOL strings
  (lists of 8-bit characters, read as the code units below 256); the character classes
  below are the ones the regular expressions of the source use, read on that range:
  \<^item> \<open>\d\<close> is \<open>is_digit\<close>, \<open>[A-Z]\<close> is \<open>is_upper\<close>, \<open>[a-z]\<close> is \<open>is_lower\<close>,
    \<open>\w\<close> is \<open>is_word\<close>, \<open>[a-zA-Z_]\<close> is \<open>is_ident_start\<close>;
  \<^item> \<open>\s\<close> is \<open>is_space\<close> (tab, line feed, vertical tab, form feed, carriage return,
    space, no-break space);
  \<^item> \<open>.\<close> excludes the line terminators (\<open>is_line_term\<close>).
\<close>

definition is_digit :: "char \<Rightarrow> bool" where
  "is_digit c = (let n = (of_char c :: nat) in 48 \<le> n \<and> n \<le> 57)"

definition is_upper :: "char \<Rightarrow> bool" where
  "is_upper c = (let n = (of_char c :: nat) in 65 \<le> n \<and> n \<le> 90)"

definition is_lower :: "char \<Rightarrow> bool" where
  "is_lower c = (let n = (of_char c :: nat) in 97 \<le> n \<and> n \<le> 122)"

definition is_ident_start :: "char \<Rightarrow> bool" where
  "is_ident_start c = (is_lower c \<or> is_upper c \<or> c = CHR ''_'')"

definition is_word :: "char \<Rightarrow> bool" where
  "is_word c = (is_lower c \<or> is_upper c \<or> is_digit c \<or> c = CHR ''_'')"

definition is_line_term :: "char \<Rightarrow> bool" where
  "is_line_term c = (c = CHR 0x0A \<or> c = CHR 0x0D)"

definition is_space :: "char \<Rightarrow> bool" where
  "is_space c = (c \<in> set [CHR 0x09, CHR 0x0A, CHR 0x0B, CHR 0x0C, CHR 0x0D, CHR 0x20, CHR 0xA0])"

definition is_quote :: "char \<Rightarrow> bool" where
  \<comment> \<open>the class of the three quote characters: single quote, double quote, backtick\<close>
  "is_quote c = (c = CHR 0x27 \<or> c = CHR 0x22 \<or> c = CHR 0x60)"

definition lower_table :: "(char \<times> char) list" where
  "lower_table = [
    (CHR ''A'', CHR ''a''), (CHR ''B'', CHR ''b''), (CHR ''C'', CHR ''c''),
    (CHR ''D'', CHR ''d''), (CHR ''E'', CHR ''e''), (CHR ''F'', CHR ''f''),
    (CHR ''G'', CHR ''g''), (CHR ''H'', CHR ''h''), (CHR ''I'', CHR ''i''),
    (CHR ''J'', CHR ''j''), (CHR ''K'', CHR ''k''), (CHR ''L'', CHR ''l''),
    (CHR ''M'', CHR ''m''), (CHR ''N'', CHR ''n''), (CHR ''O'', CHR ''o''),
    (CHR ''P'', CHR ''p''), (CHR ''Q'', CHR ''q''), (CHR ''R'', CHR ''r''),
    (CHR ''S'', CHR ''s''), (CHR ''T'', CHR ''t''), (CHR ''U'', CHR ''u''),
    (CHR ''V'', CHR ''v''), (CHR ''W'', CHR ''w''), (CHR ''X'', CHR ''x''),
    (CHR ''Y'', CHR ''y''), (CHR ''Z'', CHR ''z''), (CHR 0xC0, CHR 0xE0), (CHR 0xC1, CHR 0xE1),
    (CHR 0xC2, CHR 0xE2), (CHR 0xC3, CHR 0xE3), (CHR 0xC4, CHR 0xE4), (CHR 0xC5, CHR 0xE5),
    (CHR 0xC6, CHR 0xE6), (CHR 0xC7, CHR 0xE7), (CHR 0xC8, CHR 0xE8), (CHR 0xC9, CHR 0xE9),
    (CHR 0xCA, CHR 0xEA), (CHR 0xCB, CHR 0xEB), (CHR 0xCC, CHR 0xEC), (CHR 0xCD, CHR 0xED),
    (CHR 0xCE, CHR 0xEE), (CHR 0xCF, CHR 0xEF), (CHR 0xD0, CHR 0xF0), (CHR 0xD1, CHR 0xF1),
    (CHR 0xD2, CHR 0xF2), (CHR 0xD3, CHR 0xF3), (CHR 0xD4, CHR 0xF4), (CHR 0xD5, CHR 0xF5),
    (CHR 0xD6, CHR 0xF6), (CHR 0xD8, CHR 0xF8), (CHR 0xD9, CHR 0xF9), (CHR 0xDA, CHR 0xFA),
    (CHR 0xDB, CHR 0xFB), (CHR 0xDC, CHR 0xFC), (CHR 0xDD, CHR 0xFD), (CHR 0xDE, CHR 0xFE)]"

definition toLowerCase :: "string \<Rightarrow> string" where
  "toLowerCase s = map (\<lambda>c. case map_of lower_table c of Some l \<Rightarrow> l | None \<Rightarrow> c) s"

definition startsWith :: "string \<Rightarrow> string \<Rightarrow> bool" where
  "startsWith s p = (take (length p) s = p)"

definition endsWith :: "string \<Rightarrow> string \<Rightarrow> bool" where
  "endsWith s p = (length p \<le> length s \<and> drop (length s - length p) s = p)"

fun str_includes :: "string \<Rightarrow> string \<Rightarrow> bool" where
  "str_includes [] p = (p = [])"
| "str_includes (c # s) p = (startsWith (c # s) p \<or> str_includes s p)"

text \<open>\<open>s.split(c)\<close> for a one-character separator: never empty, \<open>''''.split(c) = ['''']\<close>.\<close>

fun split_char :: "char \<Rightarrow> string \<Rightarrow> string list" where
  "split_char c [] = [[]]"
| "split_char c (x # xs) =
     (if x = c then [] # split_char c xs
      else (case split_char c xs of w # ws \<Rightarrow> (x # w) # ws | [] \<Rightarrow> [[x]]))"

text \<open>\<open>s.split(sep)[0]\<close>: the text before the first occurrence of \<open>sep\<close> (all of \<open>s\<close>
  when there is none).\<close>

fun split_head :: "string \<Rightarrow> string \<Rightarrow> string" where
  "split_head sep [] = []"
| "split_head sep (x # xs) = (if startsWith (x # xs) sep then [] else x # split_head sep xs)"

definition trim :: "string \<Rightarrow> string" where
  "trim s = rev (dropWhile is_space (rev (dropWhile is_space s)))"

text \<open>\<open>content.substring(0, index).split('\n').length\<close>: the 1-based line of \<open>index\<close>.\<close>

definition line_of :: "string \<Rightarrow> nat \<Rightarrow> nat" where
  "line_of content index = length (split_char (CHR 0x0A) (take index content))"

section \<open>Regular expressions of the runtime\<close>

text \<open>
  A backtracking matcher for the fragment of JavaScript regular expressions the source
  uses. \<open>mt r s (i, caps)\<close> lists, in the engine's order of preference, the states
  (end position, captures) in which \<open>r\<close> can match \<open>s\<close> from position \<open>i\<close>; the head of
  the list is the match JavaScript reports. A greedy star prefers one more iteration, a
  lazy one prefers to stop; an iteration that consumes nothing is rejected, as the
  language specifies. \<open>Bos\<close>/\<open>Eos\<close> are \<open>^\<close>/\<open>$\<close> without the \<open>m\<close> flag, \<open>Bol\<close>/\<open>Eol\<close> with
  it; \<open>WordB\<close> is \<open>\b\<close>; \<open>NotAhead\<close> is \<open>(?!...)\<close>; \<open>Grp k\<close> is the \<open>k\<close>-th capturing group.
\<close>

datatype rx =
    Ch "char \<Rightarrow> bool"
  | Eps
  | Seq rx rx
  | Alt rx rx
  | Star rx
  | StarLazy rx
  | Grp nat rx
  | Bos | Eos | Bol | Eol | WordB
  | NotAhead rx

type_synonym captures = "(nat \<times> string) list"
type_synonym mstate = "nat \<times> captures"

fun iter_greedy :: "(mstate \<Rightarrow> mstate list) \<Rightarrow> nat \<Rightarrow> mstate \<Rightarrow> mstate list" where
  "iter_greedy f 0 st = [st]"
| "iter_greedy f (Suc n) st =
     concat (map (\<lambda>st'. if fst st < fst st' then iter_greedy f n st' else []) (f st)) @ [st]"

fun iter_lazy :: "(mstate \<Rightarrow> mstate list) \<Rightarrow> nat \<Rightarrow> mstate \<Rightarrow> mstate list" where
  "iter_lazy f 0 st = [st]"
| "iter_lazy f (Suc n) st =
     st # concat (map (\<lambda>st'. if fst st < fst st' then iter_lazy f n st' else []) (f st))"

definition word_at :: "string \<Rightarrow> nat \<Rightarrow> bool" where
  "word_at s i = (i < length s \<and> is_word (s ! i))"

primrec mt :: "rx \<Rightarrow> string \<Rightarrow> mstate \<Rightarrow> mstate list" where
  "mt (Ch p) s st = (if fst st < length s \<and> p (s ! fst st) then [(Suc (fst st), snd st)] else [])"
| "mt Eps s st = [st]"
| "mt (Seq a b) s st = concat (map (mt b s) (mt a s st))"
| "mt (Alt a b) s st = mt a s st @ mt b s st"
| "mt (Star a) s st = iter_greedy (mt a s) (length s) st"
| "mt (StarLazy a) s st = iter_lazy (mt a s) (length s) st"
| "mt (Grp k a) s st =
     map (\<lambda>st'. (fst st', (k, take (fst st' - fst st) (drop (fst st) s)) # snd st')) (mt a s st)"
| "mt Bos s st = (if fst st = 0 then [st] else [])"
| "mt Eos s st = (if fst st = length s then [st] else [])"
| "mt Bol s st = (if fst st = 0 \<or> is_line_term (s ! (fst st - 1)) then [st] else [])"
| "mt Eol s st = (if fst st = length s \<or> is_line_term (s ! fst st) then [st] else [])"
| "mt WordB s st =
     (if (0 < fst st \<and> word_at s (fst st - 1)) \<noteq> word_at s (fst st) then [st] else [])"
| "mt (NotAhead a) s st = (if mt a s st = [] then [st] else [])"

fun seqs :: "rx list \<Rightarrow> rx" where
  "seqs [] = Eps"
| "seqs [r] = r"
| "seqs (r # rs) = Seq r (seqs rs)"

fun alts :: "rx list \<Rightarrow> rx" where
  "alts [] = NotAhead Eps"
| "alts [r] = r"
| "alts (r # rs) = Alt r (alts rs)"

definition lit :: "string \<Rightarrow> rx" where
  "lit s = seqs (map (\<lambda>c. Ch ((=) c)) s)"

definition Plus :: "rx \<Rightarrow> rx" where
  "Plus r = Seq r (Star r)"

definition Opt :: "rx \<Rightarrow> rx" where
  "Opt r = Alt r Eps"

abbreviation ws :: rx where "ws \<equiv> Ch is_space"
abbreviation wch :: rx where "wch \<equiv> Ch is_word"
abbreviation any_char :: rx where "any_char \<equiv> Ch (\<lambda>c. True)"
abbreviation dot :: rx where "dot \<equiv> Ch (\<lambda>c. \<not> is_line_term c)"
abbreviation quote :: rx where "quote \<equiv> Ch is_quote"
abbreviation none_of :: "string \<Rightarrow> rx" where "none_of cs \<equiv> Ch (\<lambda>c. c \<notin> set cs)"
abbreviation one_of :: "string \<Rightarrow> rx" where "one_of cs \<equiv> Ch (\<lambda>c. c \<in> set cs)"

text \<open>\<open>[a-zA-Z_]\w*\<close>, \<open>[A-Z]\w*\<close>, \<open>[a-z]\w*\<close> and \<open>[A-Z][a-zA-Z_]*\w*\<close>.\<close>

definition ident :: rx where "ident = Seq (Ch is_ident_start) (Star wch)"
definition upper_ident :: rx where "upper_ident = Seq (Ch is_upper) (Star wch)"
definition lower_ident :: rx where "lower_ident = Seq (Ch is_lower) (Star wch)"
definition type_ident :: rx where
  "type_ident = seqs [Ch is_upper, Star (Ch is_ident_start), Star wch]"

fun first_some :: "('a \<Rightarrow> 'b option) \<Rightarrow> 'a list \<Rightarrow> 'b option" where
  "first_some f [] = None"
| "first_some f (x # xs) = (case f x of Some y \<Rightarrow> Some y | None \<Rightarrow> first_some f xs)"

text \<open>A match: where it starts (\<open>match.index\<close>), where it ends, and its captures.\<close>

type_synonym rmatch = "nat \<times> nat \<times> captures"

definition match_at :: "rx \<Rightarrow> string \<Rightarrow> nat \<Rightarrow> rmatch option" where
  "match_at r s i = (case mt r s (i, []) of [] \<Rightarrow> None | st # _ \<Rightarrow> Some (i, fst st, snd st))"

text \<open>\<open>r.exec(s)\<close> with \<open>lastIndex = i\<close>: the leftmost match starting at or after \<open>i\<close>.\<close>

definition exec_from :: "rx \<Rightarrow> string \<Rightarrow> nat \<Rightarrow> rmatch option" where
  "exec_from r s i = first_some (match_at r s) [i..<Suc (length s)]"

definition rx_test :: "rx \<Rightarrow> string \<Rightarrow> bool" where
  "rx_test r s = (exec_from r s 0 \<noteq> None)"

text \<open>
  The loop \<open>while ((match = pattern.exec(content)) !== null)\<close> over a pattern with the
  \<open>g\<close> flag: every match from left to right, each search starting where the previous
  match ended. A pattern that matched the empty string at \<open>lastIndex\<close> would repeat
  forever, and the recursion stops there; no pattern the source runs in such a loop can
  (each consumes a character: \<open>min_len\<close> below, and the facts about the matcher).
\<close>

function exec_all :: "rx \<Rightarrow> string \<Rightarrow> nat \<Rightarrow> rmatch list" where
  "exec_all r s i =
     (case exec_from r s i of
        None \<Rightarrow> []
      | Some (b, e, c) \<Rightarrow> if i < e \<and> e \<le> length s then (b, e, c) # exec_all r s e else [])"
  by pat_completeness auto
termination
  by (relation "measure (\<lambda>(r, s, i). Suc (length s) - i)") auto

declare exec_all.simps [simp del]

text \<open>The number of characters a match of \<open>r\<close> consumes at least.\<close>

primrec min_len :: "rx \<Rightarrow> nat" where
  "min_len (Ch p) = 1"
| "min_len Eps = 0"
| "min_len (Seq a b) = min_len a + min_len b"
| "min_len (Alt a b) = min (min_len a) (min_len b)"
| "min_len (Star a) = 0"
| "min_len (StarLazy a) = 0"
| "min_len (Grp k a) = min_len a"
| "min_len Bos = 0"
| "min_len Eos = 0"
| "min_len Bol = 0"
| "min_len Eol = 0"
| "min_len WordB = 0"
| "min_len (NotAhead a) = 0"

text \<open>The capturing groups of a pattern: \<open>match.length - 1\<close>.\<close>

primrec groups :: "rx \<Rightarrow> nat" where
  "groups (Ch p) = 0"
| "groups Eps = 0"
| "groups (Seq a b) = max (groups a) (groups b)"
| "groups (Alt a b) = max (groups a) (groups b)"
| "groups (Star a) = groups a"
| "groups (StarLazy a) = groups a"
| "groups (Grp k a) = max k (groups a)"
| "groups Bos = 0"
| "groups Eos = 0"
| "groups Bol = 0"
| "groups Eol = 0"
| "groups WordB = 0"
| "groups (NotAhead a) = 0"

text \<open>\<open>s.replace(r, '''')\<close> with the \<open>g\<close> flag (every match removed) and without it (the
  first match removed).\<close>

fun remove_matches :: "string \<Rightarrow> nat \<Rightarrow> rmatch list \<Rightarrow> string" where
  "remove_matches s pos [] = drop pos s"
| "remove_matches s pos ((b, e, c) # ms) = take (b - pos) (drop pos s) @ remove_matches s e ms"

definition replace_all_empty :: "rx \<Rightarrow> string \<Rightarrow> string" where
  "replace_all_empty r s = remove_matches s 0 (exec_all r s 0)"

definition replace_first_empty :: "rx \<Rightarrow> string \<Rightarrow> string" where
  "replace_first_empty r s =
     (case exec_from r s 0 of None \<Rightarrow> s | Some (b, e, c) \<Rightarrow> take b s @ drop e s)"

section \<open>Paths: Node's \<open>path\<close> module on POSIX\<close>

text \<open>
  \<open>path.sep\<close> is \<open>/\<close>. \<open>basename\<close>, \<open>extname\<close> and \<open>dirname\<close> ignore trailing separators
  as Node does. \<open>path.relative(from, to)\<close> resolves both paths against the working
  directory of the process (a parameter \<open>cwd\<close>, an absolute path), drops their common
  leading segments and climbs with \<open>..\<close> out of what is left of \<open>from\<close>.
\<close>

definition is_sep :: "char \<Rightarrow> bool" where
  "is_sep c = (c = CHR ''/'')"

definition basename :: "string \<Rightarrow> string" where
  "basename p = rev (takeWhile (\<lambda>c. \<not> is_sep c) (dropWhile is_sep (rev p)))"

definition extname :: "string \<Rightarrow> string" where
  "extname p =
     (let b = basename p;
          upto_dot = rev (dropWhile (\<lambda>c. c \<noteq> CHR ''.'') (rev b))
      in if upto_dot = [] \<or> length upto_dot = 1 \<or> b = ''..'' then []
         else drop (length upto_dot - 1) b)"

definition basename_ext :: "string \<Rightarrow> string \<Rightarrow> string" where
  "basename_ext p ext =
     (let b = basename p
      in if ext = [] \<or> length p < length ext then b
         else if ext = p then []
         else if length ext < length b \<and> endsWith b ext then take (length b - length ext) b
         else b)"

fun dirname_end :: "string \<Rightarrow> nat \<Rightarrow> bool \<Rightarrow> nat option" where
  "dirname_end p 0 matchedSlash = None"
| "dirname_end p (Suc i) matchedSlash =
     (if is_sep (p ! Suc i)
      then (if \<not> matchedSlash then Some (Suc i) else dirname_end p i matchedSlash)
      else dirname_end p i False)"

definition dirname :: "string \<Rightarrow> string" where
  "dirname p =
     (if p = [] then ''.''
      else (case dirname_end p (length p - 1) True of
              None \<Rightarrow> (if is_sep (hd p) then ''/'' else ''.'')
            | Some e \<Rightarrow> (if is_sep (hd p) \<and> e = 1 then ''//'' else take e p)))"

fun normalize_segs :: "string list \<Rightarrow> string list \<Rightarrow> string list" where
  "normalize_segs acc [] = rev acc"
| "normalize_segs acc (seg # rest) =
     (if seg = [] \<or> seg = ''.'' then normalize_segs acc rest
      else if seg = ''..'' then normalize_segs (tl acc) rest
      else normalize_segs (seg # acc) rest)"

text \<open>\<open>path.resolve(p)\<close>, as the list of the segments of the absolute path.\<close>

definition resolve :: "string \<Rightarrow> string \<Rightarrow> string list" where
  "resolve cwd p =
     normalize_segs [] (split_char (CHR ''/'') (if startsWith p ''/'' then p else cwd @ ''/'' @ p))"

fun strip_common :: "string list \<Rightarrow> string list \<Rightarrow> string list \<times> string list" where
  "strip_common (a # as) (b # bs) = (if a = b then strip_common as bs else (a # as, b # bs))"
| "strip_common as bs = (as, bs)"

fun join_segs :: "string list \<Rightarrow> string" where
  "join_segs [] = []"
| "join_segs [s] = s"
| "join_segs (s # ss) = s @ ''/'' @ join_segs ss"

definition relative :: "string \<Rightarrow> string \<Rightarrow> string \<Rightarrow> string" where
  "relative cwd from to =
     (if from = to then []
      else (case strip_common (resolve cwd from) (resolve cwd to) of
              (f, t) \<Rightarrow> join_segs (map (\<lambda>seg. ''..'') f @ t)))"

section \<open>config.ts: the patterns and the builtin table\<close>

text \<open>The alternatives \<open>(?:const|var|let)\<close> and \<open>(?:\([^)]*\)\s*=>|function)\<close>.\<close>

definition decl_kw :: rx where
  "decl_kw = alts [lit ''const'', lit ''var'', lit ''let'']"

definition fn_value :: rx where
  "fn_value = alts [seqs [lit ''('', Star (none_of '')''), lit '')'', Star ws, lit ''=>''],
                    lit ''function'']"

text \<open>The tail \<open>\s+from\s+['"`]([^'"`]+)['"`]\<close> of an import pattern, the module in group \<open>k\<close>.\<close>

definition from_module :: "nat \<Rightarrow> rx" where
  "from_module k = seqs [Plus ws, lit ''from'', Plus ws, quote,
                         Grp k (Plus (Ch (\<lambda>c. \<not> is_quote c))), quote]"

definition PATTERNS_component :: "rx list" where
  "PATTERNS_component = [
     seqs [lit ''export'', Plus ws, lit ''default'', Plus ws, lit ''function'', Plus ws,
           Grp 1 upper_ident, Star ws, lit ''(''],
     seqs [lit ''export'', Plus ws, lit ''default'', Plus ws, decl_kw, Plus ws,
           Grp 1 upper_ident, Star ws, lit ''='', Star ws, fn_value],
     seqs [lit ''export'', Plus ws, lit ''function'', Plus ws, Grp 1 upper_ident, Star ws,
           lit ''(''],
     seqs [lit ''export'', Plus ws, decl_kw, Plus ws, Grp 1 upper_ident, Star ws, lit ''='',
           Star ws, fn_value],
     seqs [decl_kw, Plus ws, Grp 1 upper_ident, Star ws, lit ''='', Star ws, fn_value],
     seqs [lit ''function'', Plus ws, Grp 1 upper_ident, Star ws, lit ''('']]"

definition PATTERNS_function :: "rx list" where
  "PATTERNS_function = [
     seqs [lit ''function'', Plus ws, Grp 1 lower_ident, Star ws, lit ''(''],
     seqs [decl_kw, Plus ws, Grp 1 lower_ident, Star ws, lit ''='', Star ws, fn_value],
     seqs [lit ''export'', Plus ws, lit ''function'', Plus ws, Grp 1 lower_ident, Star ws,
           lit ''(''],
     seqs [lit ''export'', Plus ws, decl_kw, Plus ws, Grp 1 lower_ident, Star ws, lit ''='',
           Star ws, fn_value]]"

definition PATTERNS_variable :: "rx list" where
  "PATTERNS_variable = [
     seqs [lit ''export'', Plus ws, decl_kw, Plus ws, Grp 1 ident, Star ws, lit ''=''],
     seqs [Bol, Star ws, decl_kw, Plus ws, Grp 1 ident, Star ws, lit ''='']]"

definition PATTERNS_import :: "rx list" where
  "PATTERNS_import = [
     seqs [lit ''import'', Star ws, lit ''{'', Star ws, Grp 1 (Plus (none_of ''}'')), Star ws,
           lit ''}'', from_module 2],
     seqs [lit ''import'', Plus ws, Grp 1 ident, from_module 2],
     seqs [lit ''import'', Plus ws, lit ''*'', Plus ws, lit ''as'', Plus ws, Grp 1 ident,
           from_module 2]]"

definition PATTERNS_usage :: "rx list" where
  "PATTERNS_usage = [
     seqs [lit ''<'', Grp 1 (Alt upper_ident (seqs [none_of ''/'', Ch is_lower, Star wch])),
           Opt (Seq (Plus ws) (Star (none_of ''>''))), Opt (lit ''/''), lit ''>'',
           NotAhead (seqs [Star any_char, lit ''</'', upper_ident, lit ''>''])],
     seqs [WordB, Grp 1 ident, Star ws, alts [lit ''('', lit ''.'']],
     seqs [WordB, Grp 1 ident, WordB],
     seqs [WordB, Grp 1 ident, Star ws, lit ''(''],
     seqs [WordB, Grp 1 ident, Star ws, lit '':'', Star ws, Grp 2 ident, WordB],
     seqs [lit ''{'', Star ws, Grp 1 ident, Star ws, lit ''}''],
     seqs [lit ''('', Grp 1 (seqs [Star (none_of '')''), WordB, Grp 2 ident, WordB,
                                  Star (none_of '')'')]), lit '')''],
     seqs [Ch (\<lambda>c. is_space c \<or> c = CHR ''('' \<or> c = CHR ''[''),
           Grp 1 ident, Star ws, lit ''='', Star ws, lit ''{'', Grp 2 ident, lit ''}''],
     seqs [lit ''export'', Star ws, lit ''{'', Star (none_of ''}''), WordB, Grp 1 ident, Plus ws,
           lit ''as'', Plus ws, Grp 2 ident, WordB, Star (none_of ''}''), lit ''}''],
     seqs [lit ''export'', Plus ws, lit ''default'', Plus ws, Grp 1 ident],
     seqs [lit ''with'', upper_ident, lit ''('', Grp 1 ident, lit '')''],
     seqs [lit ''...'', Grp 1 ident],
     seqs [lit '':'', Star ws, Grp 1 type_ident, WordB],
     seqs [lit ''<'', Star ws, Grp 1 type_ident, Star ws, lit ''>''],
     seqs [alts [lit ''interface'', lit ''type''], Plus ws, Plus wch, Plus ws, lit ''extends'',
           Plus ws, Grp 1 type_ident],
     seqs [lit ''import'', Plus ws, lit ''type'', Star ws, lit ''{'', Star (none_of ''}''), WordB,
           Grp 1 type_ident, WordB, Star (none_of ''}''), lit ''}'']]"

text \<open>\<open>REACT_HOOKS_REGEX = /^use[A-Z]\w*$/\<close>.\<close>

definition REACT_HOOKS_REGEX :: rx where
  "REACT_HOOKS_REGEX = seqs [Bos, lit ''use'', Ch is_upper, Star wch, Eos]"

definition BUILT_INS :: "string list" where
  "BUILT_INS = [
    ''React'', ''useState'', ''useEffect'', ''useContext'', ''useReducer'', ''useCallback'',
    ''useMemo'', ''useRef'', ''useImperativeHandle'', ''useLayoutEffect'', ''useDebugValue'',
    ''useDeferredValue'', ''useTransition'', ''useId'', ''useSyncExternalStore'',
    ''useInsertionEffect'', ''Fragment'', ''Suspense'', ''ErrorBoundary'', ''StrictMode'',
    ''Profiler'', ''memo'', ''forwardRef'', ''lazy'', ''createElement'', ''cloneElement'',
    ''createContext'', ''Children'', ''isValidElement'', ''createRef'', ''NextPage'',
    ''GetServerSideProps'', ''GetStaticProps'', ''GetStaticPaths'',
    ''InferGetServerSidePropsType'', ''InferGetStaticPropsType'', ''NextApiRequest'',
    ''NextApiResponse'', ''NextPageContext'', ''AppProps'', ''AppContext'', ''Head'', ''Html'',
    ''Main'', ''NextScript'', ''Document'', ''App'', ''Router'', ''Image'', ''Link'',
    ''useRouter'', ''usePathname'', ''useSearchParams'', ''useSelectedLayoutSegment'',
    ''useSelectedLayoutSegments'', ''useServerInsertedHTML'', ''redirect'', ''notFound'',
    ''div'', ''span'', ''p'', ''h1'', ''h2'', ''h3'', ''h4'', ''h5'', ''h6'', ''a'', ''img'',
    ''button'', ''input'', ''form'', ''ul'', ''li'', ''ol'', ''table'', ''tr'', ''td'', ''th'',
    ''thead'', ''tbody'', ''section'', ''article'', ''header'', ''footer'', ''nav'', ''main'',
    ''aside'', ''figure'', ''figcaption'', ''blockquote'', ''code'', ''pre'', ''strong'',
    ''em'', ''b'', ''i'', ''u'', ''mark'', ''small'', ''sub'', ''sup'', ''br'', ''hr'',
    ''iframe'', ''canvas'', ''svg'', ''path'', ''circle'', ''rect'', ''g'', ''line'',
    ''polyline'', ''polygon'', ''text'', ''ellipse'', ''console'', ''window'', ''document'',
    ''localStorage'', ''sessionStorage'', ''setTimeout'', ''setInterval'', ''clearTimeout'',
    ''clearInterval'', ''fetch'', ''Promise'', ''async'', ''await'', ''try'', ''catch'',
    ''finally'', ''if'', ''else'', ''for'', ''while'', ''do'', ''switch'', ''case'',
    ''default'', ''break'', ''continue'', ''return'', ''throw'', ''new'', ''typeof'',
    ''instanceof'', ''delete'', ''void'', ''null'', ''undefined'', ''true'', ''false'',
    ''this'', ''Array'', ''Object'', ''String'', ''Number'', ''Boolean'', ''Map'', ''Set'',
    ''Date'', ''Math'', ''JSON'', ''RegExp'', ''Error'', ''Function'', ''Symbol'', ''Proxy'',
    ''Reflect'', ''WeakMap'', ''WeakSet'', ''Intl'', ''WebAssembly'', ''decodeURI'',
    ''encodeURI'', ''decodeURIComponent'', ''encodeURIComponent'', ''isNaN'', ''isFinite'',
    ''parseFloat'', ''parseInt'', ''eval'', ''isPrototypeOf'', ''hasOwnProperty'', ''valueOf'',
    ''toString'', ''toLocaleString'', ''constructor'', ''prototype'', ''interface'', ''type'',
    ''enum'', ''namespace'', ''declare'', ''module'', ''export'', ''import'', ''from'', ''as'',
    ''default'', ''extends'', ''implements'', ''public'', ''private'', ''protected'',
    ''readonly'', ''abstract'', ''static'', ''async'', ''await'', ''function'', ''const'',
    ''let'', ''var'', ''class'', ''axios'', ''clsx'', ''zod'', ''reactHookForm'', ''useForm'',
    ''useTranslations'', ''useLocale'', ''useRouter'', ''usePathname'', ''useSearchParams'',
    ''cn'', ''classNames'', ''twMerge'', ''z'', ''eventEmitter'', ''EVENT_TYPES'']"

definition BUILT_INS_has :: "string \<Rightarrow> bool" where
  "BUILT_INS_has name = (name \<in> set BUILT_INS)"

section \<open>utils.ts: the classification heuristics\<close>

definition isCommonPattern :: "string \<Rightarrow> bool" where
  "isCommonPattern name =
     (rx_test (seqs [Bos, Plus (Ch is_digit), Eos]) name \<or>
      rx_test (seqs [Bos, Ch is_lower, Eos]) name \<or>
      rx_test (seqs [Bos, Ch is_upper, Eos]) name \<or>
      rx_test (seqs [Bos, Ch (\<lambda>c. \<not> is_ident_start c)]) name)"

definition appRouterPatterns :: "string list" where
  "appRouterPatterns = [
     ''page.tsx'', ''page.ts'', ''page.jsx'', ''page.js'',
     ''layout.tsx'', ''layout.ts'', ''layout.jsx'', ''layout.js'',
     ''loading.tsx'', ''loading.ts'', ''loading.jsx'', ''loading.js'',
     ''error.tsx'', ''error.ts'', ''error.jsx'', ''error.js'',
     ''not-found.tsx'', ''not-found.ts'', ''not-found.jsx'', ''not-found.js'',
     ''route.ts'', ''route.js'',
     ''middleware.ts'', ''middleware.js'',
     ''template.tsx'', ''template.ts'', ''template.jsx'', ''template.js'',
     ''global-error.tsx'', ''global-error.ts'', ''global-error.jsx'', ''global-error.js'',
     ''default.tsx'', ''default.ts'', ''default.jsx'', ''default.js'']"

definition pageRouterPatterns :: "string list" where
  "pageRouterPatterns = [
     ''_app.tsx'', ''_app.ts'', ''_app.jsx'', ''_app.js'',
     ''_document.tsx'', ''_document.ts'', ''_document.jsx'', ''_document.js'',
     ''_error.tsx'', ''_error.ts'', ''_error.jsx'', ''_error.js'',
     ''index.tsx'', ''index.ts'', ''index.jsx'', ''index.js'']"

definition isNextJsEntryPoint :: "string \<Rightarrow> string \<Rightarrow> bool" where
  "isNextJsEntryPoint cwd filePath =
     (let fileName = basename filePath;
          dirName = dirname filePath;
          relativePath = relative cwd cwd filePath
      in if fileName \<in> set appRouterPatterns \<or> fileName \<in> set pageRouterPatterns then True
         else if str_includes relativePath ''/app/'' \<or> str_includes relativePath ''/pages/''
         then (if startsWith fileName ''['' \<and> endsWith fileName ''].tsx'' then True
               else if startsWith fileName ''['' \<and> endsWith fileName ''].ts'' then True
               else if startsWith fileName ''['' \<and> endsWith fileName ''].jsx'' then True
               else if startsWith fileName ''['' \<and> endsWith fileName ''].js'' then True
               else if str_includes dirName ''/api/'' then True
               else True)
         else False)"

definition isLikelyComponent :: "string \<Rightarrow> string \<Rightarrow> string \<Rightarrow> string \<Rightarrow> bool" where
  "isLikelyComponent cwd name content filePath =
     (if \<not> rx_test (Seq Bos (Ch is_upper)) name then False
      else
        let hasJSXReturn =
              (rx_test (seqs [lit ''return'', Star ws, Opt (lit ''(''), lit ''<'',
                              StarLazy any_char, lit ''>'']) content \<or>
               rx_test (seqs [lit ''return'', Star ws, lit ''<'', StarLazy any_char, lit ''>''])
                       content);
            hasReactHooks = rx_test REACT_HOOKS_REGEX content;
            usesJSXAttributes =
              rx_test (alts [lit ''className'', lit ''onClick'', lit ''onSubmit'', lit ''onChange'',
                             lit ''style'']) content;
            usesReactFragment =
              rx_test (alts [lit ''<Fragment>'',
                             seqs [lit ''<'', Plus wch, Plus ws, lit ''Fragment>'']]) content;
            usesReactMemo = rx_test (lit ''memo('') content;
            usesForwardRef = rx_test (lit ''forwardRef('') content;
            usesUseClientDirective =
              str_includes content (CHR 0x22 # ''use client'' @ [CHR 0x22]);
            relativePath = toLowerCase (relative cwd cwd filePath);
            isInComponentDir =
              (str_includes relativePath ''/components/'' \<or>
               str_includes relativePath ''/component/'' \<or>
               str_includes relativePath ''/ui/'');
            isNextJsPageOrLayout = isNextJsEntryPoint cwd filePath
        in if usesUseClientDirective then True
           else if isNextJsPageOrLayout then True
           else if hasJSXReturn then True
           else if hasReactHooks \<or> usesJSXAttributes \<or> usesReactFragment \<or> usesReactMemo \<or>
                   usesForwardRef then True
           else if isInComponentDir \<and> (hasReactHooks \<or> usesJSXAttributes) then True
           else False)"

section \<open>ast-analyzer.ts: the structural strategy\<close>

text \<open>
  The parsers (\<open>@babel/parser\<close>, \<open>@typescript-eslint/parser\<close>) are outside the
  repository: a syntax tree is the JavaScript value they return, modelled as a tree of
  objects (fields in the order \<open>for ... in\<close> enumerates them), arrays and atoms. The
  analyser reads it reflectively, so the model does too. A tree is finite: a value in
  which a node leads back to itself (a parser that links every node to its parent) is
  outside the model. Where the source iterates a property that a parser always returns
  as an array (\<open>specifiers\<close>, \<open>declarations\<close>, the \<open>body\<close> of a program) the model
  reads the elements of an array and nothing of another value. A \<open>name\<close> is a string or
  is absent: the token objects that \<open>@typescript-eslint/parser\<close> lists beside the
  program have the type \<open>Identifier\<close> and a \<open>value\<close> but no \<open>name\<close>, and the source
  records a usage named \<open>undefined\<close> for each, so the name of a usage is an option
  (\<open>None\<close> is \<open>undefined\<close>). The \<open>node\<close> field of a definition is never read again and
  is left out.
\<close>

datatype json = JNull | JBool bool | JNum int | JStr string | JArr "json list"
  | JObj "(string \<times> json) list"

datatype deftype = Component | Function | Variable | Import | Export

record ASTDefinition =
  def_name :: string
  def_type :: deftype
  def_line :: int

record ASTUsage =
  usage_name :: "string option"
  usage_line :: int
  usage_context :: string

record ASTAnalysisResult =
  ast_definitions :: "ASTDefinition list"
  ast_usages :: "ASTUsage list"
  ast_exports :: "string list"
  ast_imports :: "string list"

definition emptyResult :: ASTAnalysisResult where
  "emptyResult = \<lparr>ast_definitions = [], ast_usages = [], ast_exports = [], ast_imports = []\<rparr>"

fun field :: "string \<Rightarrow> json \<Rightarrow> json option" where
  "field k (JObj fs) = map_of fs k"
| "field k v = None"

fun truthy :: "json \<Rightarrow> bool" where
  "truthy JNull = False"
| "truthy (JBool b) = b"
| "truthy (JNum n) = (n \<noteq> 0)"
| "truthy (JStr s) = (s \<noteq> [])"
| "truthy (JArr xs) = True"
| "truthy (JObj fs) = True"

definition node_type :: "json \<Rightarrow> string option" where
  "node_type node = (case field ''type'' node of Some (JStr t) \<Rightarrow> Some t | _ \<Rightarrow> None)"

text \<open>\<open>node.k || []\<close>, for a \<open>k\<close> that holds an array when it is there.\<close>

definition elements :: "json option \<Rightarrow> json list" where
  "elements v = (case v of Some (JArr xs) \<Rightarrow> xs | _ \<Rightarrow> [])"

lemma size_map_of:
  "map_of fs k = Some v \<Longrightarrow> size v < Suc (size_list (size_prod (\<lambda>x. 0) size) fs)"
  by (induction fs) (auto split: if_splits)

lemma size_field [termination_simp]: "field k n = Some v \<Longrightarrow> size v < size n"
  by (cases n) (auto dest: size_map_of)

lemma size_elements:
  "size_list size (elements (field k (JObj fs))) \<le> size_list (size_prod (\<lambda>x. 0) size) fs"
  by (cases "map_of fs k") (auto simp: elements_def split: json.splits dest: size_map_of)

text \<open>\<open>v?.name\<close>, and \<open>a || b\<close> on two such names.\<close>

definition name_of :: "json option \<Rightarrow> string option" where
  "name_of v =
     (case v of
        Some n \<Rightarrow> (case field ''name'' n of Some (JStr s) \<Rightarrow> Some s | _ \<Rightarrow> None)
      | None \<Rightarrow> None)"

definition js_or :: "string option \<Rightarrow> string option \<Rightarrow> string option" where
  "js_or a b = (case a of Some s \<Rightarrow> if s \<noteq> [] then Some s else b | None \<Rightarrow> b)"

text \<open>\<open>node.loc?.start.line || 1\<close>.\<close>

definition line_of_node :: "json \<Rightarrow> int" where
  "line_of_node node =
     (case field ''loc'' node of
        Some loc \<Rightarrow>
          (case field ''start'' loc of
             Some st \<Rightarrow> (case field ''line'' st of Some (JNum n) \<Rightarrow> if n = 0 then 1 else n | _ \<Rightarrow> 1)
           | None \<Rightarrow> 1)
      | None \<Rightarrow> 1)"

text \<open>\<open>Set.prototype.add\<close>, on a set kept as the list of its elements in insertion order.\<close>

definition set_add :: "string \<Rightarrow> string list \<Rightarrow> string list" where
  "set_add x xs = (if x \<in> set xs then xs else xs @ [x])"

text \<open>A specifier of an import declaration: the three branches of the source differ only
  in the name they read.\<close>

definition import_name :: "json \<Rightarrow> string option" where
  "import_name specifier =
     (if node_type specifier = Some ''ImportSpecifier''
      then js_or (name_of (field ''imported'' specifier)) (name_of (field ''local'' specifier))
      else if node_type specifier = Some ''ImportDefaultSpecifier''
      then name_of (field ''local'' specifier)
      else if node_type specifier = Some ''ImportNamespaceSpecifier''
      then name_of (field ''local'' specifier)
      else None)"

definition handleImportDeclaration :: "json \<Rightarrow> ASTAnalysisResult \<Rightarrow> ASTAnalysisResult" where
  "handleImportDeclaration node r =
     fold (\<lambda>specifier r.
             case import_name specifier of
               Some name \<Rightarrow>
                 if name \<noteq> [] \<and> \<not> BUILT_INS_has name \<and> \<not> isCommonPattern name
                 then r\<lparr>ast_imports := set_add name (ast_imports r),
                        ast_definitions := ast_definitions r @
                          [\<lparr>def_name = name, def_type = Import, def_line = line_of_node node\<rparr>]\<rparr>
                 else r
             | None \<Rightarrow> r)
          (elements (field ''specifiers'' node)) r"

text \<open>The specifiers of \<open>export { name1, name2 as alias }\<close>.\<close>

definition export_specifiers :: "json \<Rightarrow> ASTAnalysisResult \<Rightarrow> ASTAnalysisResult" where
  "export_specifiers node r =
     fold (\<lambda>specifier r.
             case js_or (name_of (field ''exported'' specifier))
                        (name_of (field ''local'' specifier)) of
               Some name \<Rightarrow>
                 if name \<noteq> [] \<and> \<not> BUILT_INS_has name \<and> \<not> isCommonPattern name
                 then r\<lparr>ast_exports := set_add name (ast_exports r)\<rparr>
                 else r
             | None \<Rightarrow> r)
          (elements (field ''specifiers'' node)) r"

text \<open>\<open>isExported\<close>: the loop over \<open>node.parent\<close>, \<open>parent.parent\<close>, ...\<close>

fun isExported :: "json \<Rightarrow> bool" where
  "isExported node =
     (case field ''parent'' node of
        Some parent \<Rightarrow>
          if truthy parent
          then (if node_type parent = Some ''ExportNamedDeclaration'' \<or>
                   node_type parent = Some ''ExportDefaultDeclaration'' then True
                else isExported parent)
          else False
      | None \<Rightarrow> False)"

definition handleVariableDeclaration ::
  "string \<Rightarrow> json \<Rightarrow> string \<Rightarrow> ASTAnalysisResult \<Rightarrow> ASTAnalysisResult" where
  "handleVariableDeclaration cwd node filePath r =
     fold (\<lambda>declaration r.
             case name_of (field ''id'' declaration) of
               None \<Rightarrow> r
             | Some name \<Rightarrow>
                 if name = [] \<or> BUILT_INS_has name \<or> isCommonPattern name then r
                 else
                   let line = line_of_node node;
                       exported = isExported node;
                       init = field ''init'' declaration;
                       kind =
                         (case init of
                            Some i \<Rightarrow>
                              if truthy i
                              then (if node_type i = Some ''ArrowFunctionExpression'' \<or>
                                       node_type i = Some ''FunctionExpression''
                                    then (if isLikelyComponent cwd name [] filePath then Component
                                          else Function)
                                    else Variable)
                              else Variable
                          | None \<Rightarrow> Variable);
                       r1 = r\<lparr>ast_definitions := ast_definitions r @
                               [\<lparr>def_name = name, def_type = kind, def_line = line\<rparr>]\<rparr>
                   in if exported then r1\<lparr>ast_exports := set_add name (ast_exports r1)\<rparr> else r1)
          (elements (field ''declarations'' node)) r"

definition handleFunctionDeclaration ::
  "string \<Rightarrow> json \<Rightarrow> string \<Rightarrow> ASTAnalysisResult \<Rightarrow> ASTAnalysisResult" where
  "handleFunctionDeclaration cwd node filePath r =
     (case name_of (field ''id'' node) of
        None \<Rightarrow> r
      | Some name \<Rightarrow>
          if name = [] \<or> BUILT_INS_has name \<or> isCommonPattern name then r
          else
            let line = line_of_node node;
                exported = isExported node;
                r1 = (if isLikelyComponent cwd name [] filePath
                      then r\<lparr>ast_definitions := ast_definitions r @
                               [\<lparr>def_name = name, def_type = Component, def_line = line\<rparr>]\<rparr>
                      else r\<lparr>ast_definitions := ast_definitions r @
                               [\<lparr>def_name = name, def_type = Function, def_line = line\<rparr>]\<rparr>)
            in if exported then r1\<lparr>ast_exports := set_add name (ast_exports r1)\<rparr> else r1)"

text \<open>
  The push of a usage, shared by the handlers of the usage-producing nodes:
  \<open>if (!BUILT_INS.has(name) && !isCommonPattern(name)) result.usages.push(...)\<close>. The
  name \<open>undefined\<close> is not in the table, and the four tests of \<open>isCommonPattern\<close> read
  it as the text \<open>undefined\<close>, which none of them accepts: it is pushed.
\<close>

definition push_usage ::
  "string option \<Rightarrow> json \<Rightarrow> string \<Rightarrow> ASTAnalysisResult \<Rightarrow> ASTAnalysisResult" where
  "push_usage name node ctx r =
     (if (case name of Some n \<Rightarrow> \<not> BUILT_INS_has n \<and> \<not> isCommonPattern n | None \<Rightarrow> True)
      then r\<lparr>ast_usages := ast_usages r @
             [\<lparr>usage_name = name, usage_line = line_of_node node, usage_context = ctx\<rparr>]\<rparr>
      else r)"

text \<open>\<open>if (node.k?.type === 'Identifier')\<close>, then the push of \<open>node.k.name\<close>.\<close>

definition push_identifier_child ::
  "string \<Rightarrow> json \<Rightarrow> string \<Rightarrow> ASTAnalysisResult \<Rightarrow> ASTAnalysisResult" where
  "push_identifier_child k node ctx r =
     (case field k node of
        Some c \<Rightarrow>
          if node_type c = Some ''Identifier'' then push_usage (name_of (Some c)) node ctx r
          else r
      | None \<Rightarrow> r)"

definition handleCallExpression :: "json \<Rightarrow> ASTAnalysisResult \<Rightarrow> ASTAnalysisResult" where
  "handleCallExpression node r = push_identifier_child ''callee'' node ''call'' r"

definition handleJSXElement :: "json \<Rightarrow> ASTAnalysisResult \<Rightarrow> ASTAnalysisResult" where
  "handleJSXElement node r =
     (case field ''openingElement'' node of
        Some openingElement \<Rightarrow>
          (case field ''name'' openingElement of
             Some n \<Rightarrow>
               if node_type n = Some ''JSXIdentifier''
               then push_usage (name_of (Some n)) node ''jsx'' r
               else r
           | None \<Rightarrow> r)
      | None \<Rightarrow> r)"

definition handleJSXIdentifier :: "json \<Rightarrow> ASTAnalysisResult \<Rightarrow> ASTAnalysisResult" where
  "handleJSXIdentifier node r = push_usage (name_of (Some node)) node ''jsx'' r"

definition handleIdentifier :: "json \<Rightarrow> ASTAnalysisResult \<Rightarrow> ASTAnalysisResult" where
  "handleIdentifier node r = push_usage (name_of (Some node)) node ''reference'' r"

definition handleMemberExpression :: "json \<Rightarrow> ASTAnalysisResult \<Rightarrow> ASTAnalysisResult" where
  "handleMemberExpression node r =
     push_identifier_child ''object'' node ''property'' r"

definition handleObjectProperty :: "json \<Rightarrow> ASTAnalysisResult \<Rightarrow> ASTAnalysisResult" where
  "handleObjectProperty node r = push_identifier_child ''value'' node ''property'' r"

definition handleSpreadElement :: "json \<Rightarrow> ASTAnalysisResult \<Rightarrow> ASTAnalysisResult" where
  "handleSpreadElement node r = push_identifier_child ''argument'' node ''spread'' r"

text \<open>
  \<open>traverseAST\<close>: the \<open>switch\<close> on \<open>node.type\<close>, then the loop over every key but
  \<open>type\<close> and \<open>loc\<close> whose value is an object. \<open>traverse_each\<close> is
  \<open>xs.forEach(child => this.traverseAST(child, ...))\<close>; \<open>traverse_keys\<close> is the loop
  \<open>for (const key in node)\<close> over an object and \<open>traverse_elems\<close> the same loop over an
  array (whose keys are its indices).
\<close>

function traverseAST :: "string \<Rightarrow> json \<Rightarrow> string \<Rightarrow> ASTAnalysisResult \<Rightarrow> ASTAnalysisResult"
  and traverse_each :: "string \<Rightarrow> json list \<Rightarrow> string \<Rightarrow> ASTAnalysisResult \<Rightarrow> ASTAnalysisResult"
  and traverse_keys ::
    "string \<Rightarrow> (string \<times> json) list \<Rightarrow> string \<Rightarrow> ASTAnalysisResult \<Rightarrow> ASTAnalysisResult"
  and traverse_elems :: "string \<Rightarrow> json list \<Rightarrow> string \<Rightarrow> ASTAnalysisResult \<Rightarrow> ASTAnalysisResult"
where
  "traverseAST cwd (JObj fs) filePath r =
     traverse_keys cwd fs filePath
       (let node = JObj fs; t = node_type node in
        if t = Some ''Program''
        then traverse_each cwd (elements (field ''body'' (JObj fs))) filePath r
        else if t = Some ''ImportDeclaration'' then handleImportDeclaration node r
        else if t = Some ''ExportNamedDeclaration''
        then (case field ''declaration'' (JObj fs) of
                Some d \<Rightarrow> if truthy d then traverseAST cwd d filePath r
                          else export_specifiers node r
              | None \<Rightarrow> export_specifiers node r)
        else if t = Some ''ExportDefaultDeclaration''
        then (case field ''declaration'' (JObj fs) of
                Some d \<Rightarrow> if truthy d then traverseAST cwd d filePath r else r
              | None \<Rightarrow> r)
        else if t = Some ''VariableDeclaration'' then handleVariableDeclaration cwd node filePath r
        else if t = Some ''FunctionDeclaration'' then handleFunctionDeclaration cwd node filePath r
        else if t = Some ''FunctionExpression'' then r
        else if t = Some ''ArrowFunctionExpression'' then r
        else if t = Some ''CallExpression'' then handleCallExpression node r
        else if t = Some ''JSXElement'' then handleJSXElement node r
        else if t = Some ''JSXIdentifier'' then handleJSXIdentifier node r
        else if t = Some ''Identifier'' then handleIdentifier node r
        else if t = Some ''MemberExpression'' then handleMemberExpression node r
        else if t = Some ''ObjectProperty'' then handleObjectProperty node r
        else if t = Some ''SpreadElement'' then handleSpreadElement node r
        else if t = Some ''TypeScript''
        then (case field ''typeAnnotation'' (JObj fs) of
                Some a \<Rightarrow> if truthy a then traverseAST cwd a filePath r else r
              | None \<Rightarrow> r)
        else r)"
| "traverseAST cwd (JArr xs) filePath r = traverse_elems cwd xs filePath r"
| "traverseAST cwd JNull filePath r = r"
| "traverseAST cwd (JBool b) filePath r = r"
| "traverseAST cwd (JNum n) filePath r = r"
| "traverseAST cwd (JStr s) filePath r = r"
| "traverse_each cwd [] filePath r = r"
| "traverse_each cwd (c # cs) filePath r =
     traverse_each cwd cs filePath (traverseAST cwd c filePath r)"
| "traverse_keys cwd [] filePath r = r"
| "traverse_keys cwd ((k, v) # kvs) filePath r =
     traverse_keys cwd kvs filePath
       (if k \<noteq> ''type'' \<and> k \<noteq> ''loc''
        then (case v of
                JArr ys \<Rightarrow> traverse_each cwd ys filePath r
              | JObj fs \<Rightarrow> traverseAST cwd v filePath r
              | _ \<Rightarrow> r)
        else r)"
| "traverse_elems cwd [] filePath r = r"
| "traverse_elems cwd (v # vs) filePath r =
     traverse_elems cwd vs filePath
       (case v of
          JArr ys \<Rightarrow> traverse_each cwd ys filePath r
        | JObj fs \<Rightarrow> traverseAST cwd v filePath r
        | _ \<Rightarrow> r)"
  by pat_completeness auto
termination
proof (relation "measure (\<lambda>x. case x of
      Inl (Inl (cwd, n, fp, r)) \<Rightarrow> 2 * size n + 1
    | Inl (Inr (cwd, xs, fp, r)) \<Rightarrow> 2 * size_list size xs + 2
    | Inr (Inl (cwd, fs, fp, r)) \<Rightarrow> 2 * size_list (size_prod (\<lambda>x. 0) size) fs
    | Inr (Inr (cwd, xs, fp, r)) \<Rightarrow> 2 * size_list size xs)", goal_cases)
  case 1
  show ?case by simp
next
  case (2 cwd fs filePath r x xa)
  show ?case using size_elements [of "''body''" fs] by simp
next
  case (3 cwd fs filePath r x xa x2)
  then show ?case using size_field [of "''declaration''" "JObj fs" x2] by simp
next
  case (4 cwd fs filePath r x xa x2)
  then show ?case using size_field [of "''declaration''" "JObj fs" x2] by simp
next
  case (5 cwd fs filePath r x xa x2)
  then show ?case using size_field [of "''typeAnnotation''" "JObj fs" x2] by simp
qed simp_all

section \<open>The runtime environment\<close>

text \<open>
  What the analyser reads from outside: the working directory of the process, the file
  system (\<open>fs.readFileSync(path, 'utf8')\<close> and \<open>fs.statSync(path).size\<close>, \<open>None\<close> when the
  call throws), the two parsers (\<open>None\<close> when the parser throws) and the constructor
  \<open>RegExp\<close> of the runtime on a pattern text built at run time (\<open>None\<close> when it throws a
  \<open>SyntaxError\<close>, else the \<open>test\<close> of the expression it returns). An exception the
  source does not catch ends the run: it is the \<open>Inl\<close> of a result, \<open>FileReadFailure\<close>
  for the exception of \<open>readFileSync\<close> and \<open>RegExpSyntaxError\<close> for that of \<open>RegExp\<close>. A
  warning is modelled by its text up to the path it names.
\<close>

datatype error = FileReadFailure string | RegExpSyntaxError string

record env =
  env_cwd :: string
  env_readFile :: "string \<Rightarrow> string option"
  env_statSize :: "string \<Rightarrow> nat option"
  env_tsParse :: "string \<Rightarrow> json option"
  env_babelParse :: "string \<Rightarrow> json option"
  env_regExp :: "string \<Rightarrow> (string \<Rightarrow> bool) option"

text \<open>\<open>ASTAnalyzer.analyzeFile\<close>: the warnings it prints, and its result.\<close>

definition ASTAnalyzer_analyzeFile ::
  "env \<Rightarrow> string \<Rightarrow> error + (string list \<times> ASTAnalysisResult)" where
  "ASTAnalyzer_analyzeFile e filePath =
     (case env_readFile e filePath of
        None \<Rightarrow> Inl (FileReadFailure filePath)
      | Some content \<Rightarrow>
          let ext = extname filePath in
          (case (if ext = ''.ts'' \<or> ext = ''.tsx'' then env_tsParse e content
                 else env_babelParse e content) of
             None \<Rightarrow> Inr ([''Failed to parse '' @ filePath], emptyResult)
           | Some ast \<Rightarrow> Inr ([], traverseAST (env_cwd e) ast filePath emptyResult)))"

text \<open>
  A \<open>Map\<close> from names to usage lists is a partial function on the keys, a name or
  \<open>undefined\<close>; the \<open>Map\<close> of the definitions, which \<open>performASTAnalysis\<close> iterates, is
  the list of its entries in insertion order.
\<close>

type_synonym usage_map = "string option \<Rightarrow> (string \<times> int) list option"

definition usage_push ::
  "string option \<Rightarrow> string \<times> int \<Rightarrow> usage_map \<Rightarrow> usage_map" where
  "usage_push name occ um = um(name \<mapsto> (case um name of None \<Rightarrow> [] | Some us \<Rightarrow> us) @ [occ])"

fun map_push :: "string \<Rightarrow> 'a \<Rightarrow> (string \<times> 'a list) list \<Rightarrow> (string \<times> 'a list) list" where
  "map_push k d [] = [(k, [d])]"
| "map_push k d ((k', ds) # m) =
     (if k = k' then (k', ds @ [d]) # m else (k', ds) # map_push k d m)"

record ASTResults =
  all_definitions :: "(string \<times> ASTDefinition list) list"
  all_usages :: usage_map
  all_exports :: "string list"
  all_imports :: "string list"

definition emptyASTResults :: ASTResults where
  "emptyASTResults =
     \<lparr>all_definitions = [], all_usages = Map.empty, all_exports = [], all_imports = []\<rparr>"

text \<open>The body of \<open>files.forEach\<close> in \<open>analyzeAllFiles\<close>, on the warnings printed so far
  and the four collections.\<close>

definition analyzeAllFiles_file ::
  "env \<Rightarrow> string \<Rightarrow> string list \<times> ASTResults \<Rightarrow> error + (string list \<times> ASTResults)" where
  "analyzeAllFiles_file e file acc =
     (case ASTAnalyzer_analyzeFile e file of
        Inl err \<Rightarrow> Inl err
      | Inr (warnings, result) \<Rightarrow>
          let relativePath = relative (env_cwd e) (env_cwd e) file;
              a = snd acc
          in Inr (fst acc @ warnings,
                  \<lparr>all_definitions =
                     fold (\<lambda>d m. map_push (relativePath @ '':'' @ def_name d) d m)
                          (ast_definitions result) (all_definitions a),
                   all_usages =
                     fold (\<lambda>u m. usage_push (usage_name u) (relativePath, usage_line u) m)
                          (ast_usages result) (all_usages a),
                   all_exports = fold set_add (ast_exports result) (all_exports a),
                   all_imports = fold set_add (ast_imports result) (all_imports a)\<rparr>))"

fun analyzeAllFiles_loop ::
  "env \<Rightarrow> string list \<Rightarrow> string list \<times> ASTResults \<Rightarrow> error + (string list \<times> ASTResults)" where
  "analyzeAllFiles_loop e [] acc = Inr acc"
| "analyzeAllFiles_loop e (file # files) acc =
     (case analyzeAllFiles_file e file acc of
        Inl err \<Rightarrow> Inl err
      | Inr acc' \<Rightarrow> analyzeAllFiles_loop e files acc')"

definition analyzeAllFiles :: "env \<Rightarrow> string list \<Rightarrow> error + (string list \<times> ASTResults)" where
  "analyzeAllFiles e files = analyzeAllFiles_loop e files ([], emptyASTResults)"

section \<open>analyzer.ts: the run\<close>

record CodeIssue =
  issue_name :: string
  issue_file :: string
  issue_type :: deftype
  issue_line :: "int option"

record FileIssue =
  fi_path :: string
  fi_size :: nat

record AnalysisResults =
  unusedComponents :: "CodeIssue list"
  unusedFunctions :: "CodeIssue list"
  unusedVariables :: "CodeIssue list"
  unusedFiles :: "FileIssue list"
  unusedExports :: "CodeIssue list"
  unusedImports :: "CodeIssue list"
  totalIssues :: nat

definition emptyAnalysis :: AnalysisResults where
  "emptyAnalysis =
     \<lparr>unusedComponents = [], unusedFunctions = [], unusedVariables = [], unusedFiles = [],
      unusedExports = [], unusedImports = [], totalIssues = 0\<rparr>"

record FileDefinitions =
  fd_components :: "string list"
  fd_functions :: "string list"
  fd_variables :: "string list"
  fd_imports :: "string list"
  fd_exports :: "string list"

definition emptyDefinitions :: FileDefinitions where
  "emptyDefinitions =
     \<lparr>fd_components = [], fd_functions = [], fd_variables = [], fd_imports = [],
      fd_exports = []\<rparr>"

subsection \<open>The structural strategy\<close>

text \<open>The \<open>switch (def.type)\<close> of \<open>performASTAnalysis\<close>: an \<open>export\<close> has no case.\<close>

definition push_issue :: "CodeIssue \<Rightarrow> AnalysisResults \<Rightarrow> AnalysisResults" where
  "push_issue issue a =
     (case issue_type issue of
        Component \<Rightarrow> a\<lparr>unusedComponents := unusedComponents a @ [issue]\<rparr>
      | Function \<Rightarrow> a\<lparr>unusedFunctions := unusedFunctions a @ [issue]\<rparr>
      | Variable \<Rightarrow> a\<lparr>unusedVariables := unusedVariables a @ [issue]\<rparr>
      | Import \<Rightarrow> a\<lparr>unusedImports := unusedImports a @ [issue]\<rparr>
      | Export \<Rightarrow> a)"

text \<open>
  \<open>performASTAnalysis\<close>, from the result of \<open>analyzeAllFiles\<close>. The file and the name of
  an issue are the first two parts of \<open>key.split(':')\<close>; a key always holds a colon.
  \<open>structural_isUsed\<close> is its test \<open>usages && usages.length > 0\<close>.
\<close>

definition structural_isUsed :: "usage_map \<Rightarrow> string \<Rightarrow> bool" where
  "structural_isUsed usages name = (case usages (Some name) of Some us \<Rightarrow> us \<noteq> [] | None \<Rightarrow> False)"

definition performASTAnalysis :: "ASTResults \<Rightarrow> AnalysisResults \<Rightarrow> AnalysisResults" where
  "performASTAnalysis astResults analysis =
     fold (\<lambda>(key, definitions) a.
             case split_char (CHR '':'') key of
               filePath # name # rest \<Rightarrow>
                 fold (\<lambda>d a.
                         if \<not> structural_isUsed (all_usages astResults) name
                         then push_issue \<lparr>issue_name = name, issue_file = filePath,
                                          issue_type = def_type d,
                                          issue_line = Some (def_line d)\<rparr> a
                         else a)
                      definitions a
             | _ \<Rightarrow> a)
          (all_definitions astResults) analysis"

subsection \<open>The lexical strategy\<close>

text \<open>
  A name spliced into \<open>new RegExp(...)\<close> is read as a pattern. The names the lexical
  strategy defines are matches of \<open>[A-Za-z_]\w*\<close>, in which no character has a meaning
  of its own, so the spliced name is the literal \<open>lit name\<close>.
\<close>

text \<open>The body of the loop over the capturing groups of one match in \<open>buildUsageMap\<close>.\<close>

definition usages_of_match :: "string \<Rightarrow> string \<Rightarrow> rx \<Rightarrow> rmatch \<Rightarrow> usage_map \<Rightarrow> usage_map" where
  "usages_of_match relativePath content pattern m um =
     fold (\<lambda>i um.
             case map_of (snd (snd m)) i of
               None \<Rightarrow> um
             | Some name \<Rightarrow>
                 if name = [] then um
                 else if BUILT_INS_has name \<or> isCommonPattern name then um
                 else usage_push (Some name) (relativePath, int (line_of content (fst m))) um)
          [1..<Suc (groups pattern)] um"

definition usages_of_file :: "string \<Rightarrow> string \<Rightarrow> usage_map \<Rightarrow> usage_map" where
  "usages_of_file relativePath content um =
     fold (\<lambda>pattern um.
             fold (usages_of_match relativePath content pattern) (exec_all pattern content 0) um)
          PATTERNS_usage um"

fun buildUsageMap_loop ::
  "env \<Rightarrow> string \<Rightarrow> string list \<Rightarrow> usage_map \<Rightarrow> error + usage_map" where
  "buildUsageMap_loop e srcDir [] um = Inr um"
| "buildUsageMap_loop e srcDir (file # files) um =
     (case env_readFile e file of
        None \<Rightarrow> Inl (FileReadFailure file)
      | Some content \<Rightarrow>
          buildUsageMap_loop e srcDir files
            (usages_of_file (relative (env_cwd e) srcDir file) content um))"

definition buildUsageMap :: "env \<Rightarrow> string \<Rightarrow> string list \<Rightarrow> error + usage_map" where
  "buildUsageMap e srcDir files = buildUsageMap_loop e srcDir files Map.empty"

text \<open>\<open>removeComments\<close>: the line comments \<open>/\/\/.*$/gm\<close> are removed first, then the block
  comments \<open>/\/\*[\s\S]*?\*\//g\<close>.\<close>

definition lineComment :: rx where
  "lineComment = seqs [lit ''//'', Star dot, Eol]"

definition blockComment :: rx where
  "blockComment = seqs [lit ''/*'', StarLazy any_char, lit ''*/'']"

definition removeComments :: "string \<Rightarrow> string" where
  "removeComments content = replace_all_empty blockComment (replace_all_empty lineComment content)"

definition isTopLevelVariable :: "string \<Rightarrow> nat \<Rightarrow> bool" where
  "isTopLevelVariable content index =
     (let beforeMatch = take index content;
          currentLine = last (split_char (CHR 0x0A) beforeMatch);
          openBraces = length (filter (\<lambda>c. c = CHR ''{'') beforeMatch);
          closeBraces = length (filter (\<lambda>c. c = CHR ''}'') beforeMatch)
      in if closeBraces < openBraces then False
         else let trimmedLine = trim currentLine
              in if startsWith trimmedLine ''const '' \<or> startsWith trimmedLine ''let '' \<or>
                    startsWith trimmedLine ''var '' then True
                 else False)"

text \<open>\<open>patterns.forEach(pattern => { while ((match = pattern.exec(text)) !== null) body })\<close>.\<close>

definition for_matches :: "rx list \<Rightarrow> string \<Rightarrow> (rmatch \<Rightarrow> 'a \<Rightarrow> 'a) \<Rightarrow> 'a \<Rightarrow> 'a" where
  "for_matches patterns text body acc =
     fold (\<lambda>pattern acc. fold body (exec_all pattern text 0) acc) patterns acc"

definition group :: "rmatch \<Rightarrow> nat \<Rightarrow> string option" where
  "group m i = map_of (snd (snd m)) i"

definition component_match ::
  "string \<Rightarrow> string \<Rightarrow> string \<Rightarrow> rmatch \<Rightarrow> FileDefinitions \<Rightarrow> FileDefinitions" where
  "component_match cwd content filePath m defs =
     (case group m 1 of
        None \<Rightarrow> defs
      | Some name \<Rightarrow>
          if \<not> BUILT_INS_has name \<and> \<not> isCommonPattern name
          then (if isLikelyComponent cwd name content filePath
                then (let defs1 = defs\<lparr>fd_components := set_add name (fd_components defs)\<rparr>
                      in if str_includes content (''export default '' @ name) \<or>
                            str_includes content (''export function '' @ name) \<or>
                            str_includes content (''export const '' @ name)
                         then defs1\<lparr>fd_exports := set_add name (fd_exports defs1)\<rparr>
                         else defs1)
                else (let defs1 = defs\<lparr>fd_functions := set_add name (fd_functions defs)\<rparr>
                      in if str_includes content (''export function '' @ name) \<or>
                            str_includes content (''export const '' @ name)
                         then defs1\<lparr>fd_exports := set_add name (fd_exports defs1)\<rparr>
                         else defs1))
          else defs)"

definition function_match :: "string \<Rightarrow> rmatch \<Rightarrow> FileDefinitions \<Rightarrow> FileDefinitions" where
  "function_match content m defs =
     (case group m 1 of
        None \<Rightarrow> defs
      | Some name \<Rightarrow>
          if \<not> BUILT_INS_has name \<and> \<not> isCommonPattern name \<and> name \<notin> set (fd_components defs)
          then (let defs1 = defs\<lparr>fd_functions := set_add name (fd_functions defs)\<rparr>
                in if str_includes content (''export function '' @ name) \<or>
                      str_includes content (''export const '' @ name)
                   then defs1\<lparr>fd_exports := set_add name (fd_exports defs1)\<rparr>
                   else defs1)
          else defs)"

definition variable_match ::
  "string \<Rightarrow> string \<Rightarrow> rmatch \<Rightarrow> FileDefinitions \<Rightarrow> FileDefinitions" where
  "variable_match content contentWithoutComments m defs =
     (case group m 1 of
        None \<Rightarrow> defs
      | Some name \<Rightarrow>
          if \<not> BUILT_INS_has name \<and> \<not> isCommonPattern name
          then (if name \<notin> set (fd_functions defs) \<and> name \<notin> set (fd_components defs)
                then (if isTopLevelVariable contentWithoutComments (fst m)
                      then (let defs1 = defs\<lparr>fd_variables := set_add name (fd_variables defs)\<rparr>
                            in if str_includes content (''export const '' @ name) \<or>
                                  str_includes content (''export let '' @ name) \<or>
                                  str_includes content (''export var '' @ name)
                               then defs1\<lparr>fd_exports := set_add name (fd_exports defs1)\<rparr>
                               else defs1)
                      else defs)
                else defs)
          else defs)"

text \<open>\<open>imp.split(' as ')[0].trim()\<close> for every \<open>imp\<close> of
  \<open>list.split(',').map(imp => imp.trim())\<close>, added when it passes the two tests.\<close>

definition add_import_list :: "string \<Rightarrow> FileDefinitions \<Rightarrow> FileDefinitions" where
  "add_import_list names defs =
     fold (\<lambda>imp defs.
             let cleanName = trim (split_head '' as '' imp)
             in if \<not> BUILT_INS_has cleanName \<and> \<not> isCommonPattern cleanName
                then defs\<lparr>fd_imports := set_add cleanName (fd_imports defs)\<rparr>
                else defs)
          (map trim (split_char (CHR '','') names)) defs"

definition add_import_name :: "string \<Rightarrow> FileDefinitions \<Rightarrow> FileDefinitions" where
  "add_import_name name defs =
     (if \<not> BUILT_INS_has name \<and> \<not> isCommonPattern name
      then defs\<lparr>fd_imports := set_add name (fd_imports defs)\<rparr>
      else defs)"

definition truthy_group :: "rmatch \<Rightarrow> nat \<Rightarrow> string option" where
  "truthy_group m i = (case group m i of Some g \<Rightarrow> if g = [] then None else Some g | None \<Rightarrow> None)"

definition import_match :: "rmatch \<Rightarrow> FileDefinitions \<Rightarrow> FileDefinitions" where
  "import_match m defs =
     (case truthy_group m 1 of
        Some names \<Rightarrow> add_import_list names defs
      | None \<Rightarrow>
          (case truthy_group m 2 of
             Some name \<Rightarrow> add_import_name name defs
           | None \<Rightarrow>
               (case truthy_group m 3 of
                  Some name \<Rightarrow> add_import_name name defs
                | None \<Rightarrow> defs)))"

definition typeImportPattern :: rx where
  "typeImportPattern =
     seqs [lit ''import'', Plus ws, lit ''type'', Star ws, lit ''{'', Star ws,
           Grp 1 (Plus (none_of ''}'')), Star ws, lit ''}'', from_module 2]"

definition type_import_match :: "rmatch \<Rightarrow> FileDefinitions \<Rightarrow> FileDefinitions" where
  "type_import_match m defs =
     (case group m 1 of Some types \<Rightarrow> add_import_list types defs | None \<Rightarrow> defs)"

text \<open>The definitions \<open>analyzeFile\<close> collects from one file, before it checks them.\<close>

definition extractDefinitions :: "string \<Rightarrow> string \<Rightarrow> string \<Rightarrow> FileDefinitions" where
  "extractDefinitions cwd content filePath =
     (let contentWithoutComments = removeComments content;
          d1 = for_matches PATTERNS_component contentWithoutComments
                 (component_match cwd content filePath) emptyDefinitions;
          d2 = for_matches PATTERNS_function contentWithoutComments (function_match content) d1;
          d3 = for_matches PATTERNS_variable contentWithoutComments
                 (variable_match content contentWithoutComments) d2;
          d4 = for_matches PATTERNS_import content import_match d3
      in fold type_import_match (exec_all typeImportPattern content 0) d4)"

text \<open>The helper \<open>isUsed\<close> of \<open>checkUnusedDefinitions\<close>; \<open>exports\<close> is \<open>definitions.exports\<close>.\<close>

definition localUsagePatterns :: "string \<Rightarrow> rx list" where
  "localUsagePatterns name =
     [seqs [WordB, lit name, Star ws, lit ''(''],
      seqs [lit ''<'', lit name, Ch (\<lambda>c. is_space c \<or> c = CHR ''/'' \<or> c = CHR ''>'')],
      seqs [WordB, lit name, WordB]]"

definition isUsed :: "usage_map \<Rightarrow> string list \<Rightarrow> string \<Rightarrow> string \<Rightarrow> string \<Rightarrow> bool" where
  "isUsed usageMap exports filePath content name =
     (let usages = usageMap (Some name);
          hasLocalUsage = list_ex (\<lambda>pattern. rx_test pattern content) (localUsagePatterns name)
      in if (case usages of Some us \<Rightarrow> list_ex (\<lambda>u. fst u \<noteq> filePath) us | None \<Rightarrow> False)
         then True
         else if hasLocalUsage then True
         else if str_includes content (''export default '' @ name) then True
         else if name \<in> set exports \<and> (case usages of Some us \<Rightarrow> us = [] | None \<Rightarrow> True)
         then False
         else if rx_test REACT_HOOKS_REGEX name then True
         else False)"

definition checkUnusedDefinitions ::
  "usage_map \<Rightarrow> FileDefinitions \<Rightarrow> string \<Rightarrow> string \<Rightarrow> AnalysisResults \<Rightarrow> AnalysisResults" where
  "checkUnusedDefinitions usageMap definitions filePath content analysis =
     (let used = isUsed usageMap (fd_exports definitions) filePath content;
          a1 = fold (\<lambda>component a.
                       if \<not> used component
                       then a\<lparr>unusedComponents := unusedComponents a @
                                [\<lparr>issue_name = component, issue_file = filePath,
                                  issue_type = Component, issue_line = None\<rparr>]\<rparr>
                       else a)
                    (fd_components definitions) analysis;
          a2 = fold (\<lambda>func a.
                       if \<not> used func
                       then (if \<not> rx_test (seqs [WordB, lit func, Star ws, lit ''('']) content
                             then a\<lparr>unusedFunctions := unusedFunctions a @
                                      [\<lparr>issue_name = func, issue_file = filePath,
                                        issue_type = Function, issue_line = None\<rparr>]\<rparr>
                             else a)
                       else a)
                    (fd_functions definitions) a1;
          a3 = fold (\<lambda>variable a.
                       if \<not> used variable
                       then a\<lparr>unusedVariables := unusedVariables a @
                                [\<lparr>issue_name = variable, issue_file = filePath,
                                  issue_type = Variable, issue_line = None\<rparr>]\<rparr>
                       else a)
                    (fd_variables definitions) a2
      in fold (\<lambda>importName a.
                 let usages = usageMap (Some importName)
                 in if (case usages of
                          None \<Rightarrow> True
                        | Some us \<Rightarrow> us = [] \<or>
                            (length us = 1 \<and> str_includes content (''import '' @ importName)))
                    then a\<lparr>unusedImports := unusedImports a @
                             [\<lparr>issue_name = importName, issue_file = filePath,
                               issue_type = Import, issue_line = None\<rparr>]\<rparr>
                    else a)
              (fd_imports definitions) a3)"

text \<open>\<open>DeadCodeAnalyzer.analyzeFile\<close>, on the usage map of the run and the analysis so far.\<close>

definition DeadCodeAnalyzer_analyzeFile ::
  "env \<Rightarrow> string \<Rightarrow> usage_map \<Rightarrow> string \<Rightarrow> AnalysisResults \<Rightarrow> error + AnalysisResults" where
  "DeadCodeAnalyzer_analyzeFile e srcDir usageMap filePath analysis =
     (case env_readFile e filePath of
        None \<Rightarrow> Inl (FileReadFailure filePath)
      | Some content \<Rightarrow>
          Inr (checkUnusedDefinitions usageMap
                 (extractDefinitions (env_cwd e) content filePath)
                 (relative (env_cwd e) srcDir filePath) content analysis))"

fun analyzeFiles_loop ::
  "env \<Rightarrow> string \<Rightarrow> usage_map \<Rightarrow> string list \<Rightarrow> AnalysisResults \<Rightarrow> error + AnalysisResults" where
  "analyzeFiles_loop e srcDir usageMap [] analysis = Inr analysis"
| "analyzeFiles_loop e srcDir usageMap (file # files) analysis =
     (case DeadCodeAnalyzer_analyzeFile e srcDir usageMap file analysis of
        Inl err \<Rightarrow> Inl err
      | Inr analysis' \<Rightarrow> analyzeFiles_loop e srcDir usageMap files analysis')"

definition performRegexAnalysis ::
  "env \<Rightarrow> string \<Rightarrow> string list \<Rightarrow> AnalysisResults \<Rightarrow> error + AnalysisResults" where
  "performRegexAnalysis e srcDir allFiles analysis =
     (case buildUsageMap e srcDir allFiles of
        Inl err \<Rightarrow> Inl err
      | Inr usageMap \<Rightarrow> analyzeFiles_loop e srcDir usageMap allFiles analysis)"

subsection \<open>The unused-file detector\<close>

text \<open>
  The pattern of \<open>findUnusedFiles\<close> is built from a template literal,
  \<open>new RegExp(`from\s+['\"\`]${importPath}['\"\`]`)\<close>. In a template literal a backslash
  before \<open>s\<close>, before a quote or before a backtick escapes nothing, so the text handed to
  \<open>RegExp\<close> is \<open>froms+['"`]\<close>, the path, \<open>['"`]\<close>: the word \<open>from\<close>, one or more letters
  \<open>s\<close>, a quote, the path, a quote. (The patterns of \<open>isUsed\<close> double their backslashes
  and keep them.) The path is spliced in as a pattern. In a path in which the dot is
  the only character of \<open>regex_special\<close> (\<open>plain_path\<close>) \<open>RegExp\<close> reads a dot as any
  character but a line terminator and every other character as itself (\<open>path_rx\<close>), and
  the expression is \<open>plainImportRegex\<close>. Another path \<open>RegExp\<close> reads as a class, a
  group, a quantifier or an assertion, or rejects with a \<open>SyntaxError\<close>: what it does
  with the text \<open>importPattern\<close> is the runtime's answer, \<open>env_regExp\<close>. \<open>importRegex\<close> is
  \<open>new RegExp(...)\<close> as the \<open>test\<close> of the expression, \<open>None\<close> when the constructor throws.
\<close>

definition regex_special :: "char \<Rightarrow> bool" where
  "regex_special c = (c \<in> set (CHR 0x5C # ''^$.*+?()[]{}|''))"

definition plain_path :: "string \<Rightarrow> bool" where
  "plain_path p = list_all (\<lambda>c. c = CHR ''.'' \<or> \<not> regex_special c) p"

definition path_rx :: "string \<Rightarrow> rx" where
  "path_rx p = seqs (map (\<lambda>c. if c = CHR ''.'' then dot else Ch ((=) c)) p)"

definition importPattern :: "string \<Rightarrow> string" where
  "importPattern importPath =
     ''froms+['' @ [CHR 0x27, CHR 0x22, CHR 0x60] @ '']'' @ importPath @
     ''['' @ [CHR 0x27, CHR 0x22, CHR 0x60] @ '']''"

definition plainImportRegex :: "string \<Rightarrow> rx" where
  "plainImportRegex importPath =
     seqs [lit ''from'', Plus (lit ''s''), quote, path_rx importPath, quote]"

definition importRegex :: "env \<Rightarrow> string \<Rightarrow> (string \<Rightarrow> bool) option" where
  "importRegex e importPath =
     (if plain_path importPath then Some (rx_test (plainImportRegex importPath))
      else env_regExp e (importPattern importPath))"

definition possibleImportPaths :: "string \<Rightarrow> string \<Rightarrow> string \<Rightarrow> string list" where
  "possibleImportPaths cwd srcDir file =
     (let fileName = basename file;
          fileNameWithoutExt = basename_ext file (extname file);
          relFromSrc = ''./'' @
            replace_first_empty
              (seqs [lit ''.'', one_of ''tj'', lit ''s'', Opt (lit ''x''), Eos])
              (map (\<lambda>c. if c = CHR 0x5C then CHR ''/'' else c) (relative cwd srcDir file))
      in [''./'' @ fileNameWithoutExt, ''./'' @ fileName, fileNameWithoutExt, fileName,
          relFromSrc, relFromSrc @ extname file])"

text \<open>The loop over the spellings of the path, for one other file: it stops at the first
  spelling that matches, and a pattern it never reaches is never built.\<close>

fun importsAny :: "env \<Rightarrow> string list \<Rightarrow> string \<Rightarrow> error + bool" where
  "importsAny e [] content = Inr False"
| "importsAny e (importPath # rest) content =
     (case importRegex e importPath of
        None \<Rightarrow> Inl (RegExpSyntaxError (importPattern importPath))
      | Some test \<Rightarrow> if test content then Inr True else importsAny e rest content)"

text \<open>The loop over the other files: it stops at the first file that matches, and a file
  it never reaches is never read.\<close>

fun isImported :: "env \<Rightarrow> string list \<Rightarrow> string \<Rightarrow> string list \<Rightarrow> error + bool" where
  "isImported e paths file [] = Inr False"
| "isImported e paths file (otherFile # rest) =
     (if otherFile = file then isImported e paths file rest
      else (case env_readFile e otherFile of
              None \<Rightarrow> Inl (FileReadFailure otherFile)
            | Some content \<Rightarrow>
                (case importsAny e paths content of
                   Inl err \<Rightarrow> Inl err
                 | Inr True \<Rightarrow> Inr True
                 | Inr False \<Rightarrow> isImported e paths file rest)))"

definition hasExports :: "string \<Rightarrow> bool" where
  "hasExports fileContent =
     rx_test (seqs [lit ''export'', Plus ws,
                    alts [lit ''default'', lit ''{'', lit ''const'', lit ''function'', lit ''class'',
                          lit ''interface'', lit ''type'']]) fileContent"

definition isMainFile :: "string \<Rightarrow> bool" where
  "isMainFile fileName =
     (fileName = ''index.ts'' \<or> fileName = ''index.tsx'' \<or> fileName = ''index.js'' \<or>
      fileName = ''index.jsx'' \<or> fileName = ''main.ts'' \<or> fileName = ''main.tsx'' \<or>
      fileName = ''main.js'' \<or> fileName = ''main.jsx'')"

definition isConfigFile :: "string \<Rightarrow> bool" where
  "isConfigFile fileName =
     (str_includes fileName ''config'' \<or> str_includes fileName ''Config'' \<or>
      str_includes fileName ''setup'' \<or> str_includes fileName ''Setup'')"

definition isUtilityFile :: "string \<Rightarrow> bool" where
  "isUtilityFile fileDir =
     (str_includes fileDir ''utils'' \<or> str_includes fileDir ''lib'' \<or>
      str_includes fileDir ''helpers'' \<or> str_includes fileDir ''services'' \<or>
      str_includes fileDir ''hooks'' \<or> str_includes fileDir ''components'')"

text \<open>The body of \<open>this.allFiles.forEach\<close> in \<open>findUnusedFiles\<close>, on the warnings printed
  so far and the analysis.\<close>

definition findUnusedFiles_file ::
  "env \<Rightarrow> string \<Rightarrow> string list \<Rightarrow> string \<Rightarrow> string list \<times> AnalysisResults \<Rightarrow>
   error + (string list \<times> AnalysisResults)" where
  "findUnusedFiles_file e srcDir allFiles file acc =
     (let relativePath = relative (env_cwd e) srcDir file;
          fileName = basename file;
          fileDir = dirname file
      in case isImported e (possibleImportPaths (env_cwd e) srcDir file) file allFiles of
           Inl err \<Rightarrow> Inl err
         | Inr imported \<Rightarrow>
             let isEntryPoint = isNextJsEntryPoint (env_cwd e) file
             in (case env_readFile e file of
                   None \<Rightarrow> Inl (FileReadFailure file)
                 | Some fileContent \<Rightarrow>
                     if \<not> imported \<and> \<not> isEntryPoint \<and> \<not> hasExports fileContent \<and>
                        \<not> isMainFile fileName \<and> \<not> isConfigFile fileName \<and>
                        \<not> isUtilityFile fileDir
                     then (case env_statSize e file of
                             Some sz \<Rightarrow>
                               Inr (fst acc,
                                    (snd acc)\<lparr>unusedFiles := unusedFiles (snd acc) @
                                       [\<lparr>fi_path = relativePath, fi_size = sz\<rparr>]\<rparr>)
                           | None \<Rightarrow>
                               Inr (fst acc @ [''Could not get size for file '' @ relativePath],
                                    snd acc))
                     else Inr acc))"

fun findUnusedFiles_loop ::
  "env \<Rightarrow> string \<Rightarrow> string list \<Rightarrow> string list \<Rightarrow> string list \<times> AnalysisResults \<Rightarrow>
   error + (string list \<times> AnalysisResults)" where
  "findUnusedFiles_loop e srcDir allFiles [] acc = Inr acc"
| "findUnusedFiles_loop e srcDir allFiles (file # files) acc =
     (case findUnusedFiles_file e srcDir allFiles file acc of
        Inl err \<Rightarrow> Inl err
      | Inr acc' \<Rightarrow> findUnusedFiles_loop e srcDir allFiles files acc')"

definition findUnusedFiles ::
  "env \<Rightarrow> string \<Rightarrow> string list \<Rightarrow> string list \<times> AnalysisResults \<Rightarrow>
   error + (string list \<times> AnalysisResults)" where
  "findUnusedFiles e srcDir allFiles acc = findUnusedFiles_loop e srcDir allFiles allFiles acc"

subsection \<open>The run\<close>

text \<open>
  What \<open>generateDeadCodeReport\<close> does to the analysis while it prints it: it sets the
  total (the unused exports are not counted) and sorts the unused files in place, the
  largest first (\<open>Array.prototype.sort\<close> is stable, as \<open>sort_key\<close> is).
\<close>

definition generateDeadCodeReport :: "AnalysisResults \<Rightarrow> AnalysisResults" where
  "generateDeadCodeReport a =
     a\<lparr>totalIssues :=
         length (unusedComponents a) + length (unusedFunctions a) + length (unusedVariables a) +
         length (unusedFiles a) + length (unusedImports a),
       unusedFiles := sort_key (\<lambda>f. - int (fi_size f)) (unusedFiles a)\<rparr>"

text \<open>
  \<open>findDeadCode\<close>, from the source directory and the mode of the configuration and the
  files the glob found (\<open>allFiles\<close>): the warnings printed and the analysis as the run
  leaves it, or the exception that ended the run.
\<close>

definition findDeadCode ::
  "env \<Rightarrow> string \<Rightarrow> string \<Rightarrow> string list \<Rightarrow> error + (string list \<times> AnalysisResults)" where
  "findDeadCode e srcDir analysisMode allFiles =
     (case (if analysisMode = ''ast''
            then (case analyzeAllFiles e allFiles of
                    Inl err \<Rightarrow> Inl err
                  | Inr (warnings, astResults) \<Rightarrow>
                      Inr (warnings, performASTAnalysis astResults emptyAnalysis))
            else (case performRegexAnalysis e srcDir allFiles emptyAnalysis of
                    Inl err \<Rightarrow> Inl err
                  | Inr analysis \<Rightarrow> Inr ([], analysis))) of
        Inl err \<Rightarrow> Inl err
      | Inr acc \<Rightarrow>
          (case findUnusedFiles e srcDir allFiles acc of
             Inl err \<Rightarrow> Inl err
           | Inr (warnings, analysis) \<Rightarrow> Inr (warnings, generateDeadCodeReport analysis)))"

section \<open>Concrete inputs\<close>

text \<open>
  In the file sets below every spelling of a path is a plain path, so the detector of
  unused files never calls the constructor of the runtime, and \<open>env_regExp\<close> is not read.

  Scenario A of the specification: one file \<open>src/a.ts\<close> holding \<open>function foo(){}\<close>,
  with the tree the TypeScript parser returns for it (positions kept where the analyser
  reads them).
\<close>

definition scenarioA_ast :: json where
  "scenarioA_ast = JObj [(''type'', JStr ''Program''),
     (''body'', JArr [JObj [(''type'', JStr ''FunctionDeclaration''),
        (''id'', JObj [(''type'', JStr ''Identifier''), (''name'', JStr ''foo''),
                       (''range'', JArr [JNum 9, JNum 12]),
                       (''loc'', JObj [(''start'', JObj [(''line'', JNum 1), (''column'', JNum 9)]),
                                       (''end'', JObj [(''line'', JNum 1), (''column'', JNum 12)])])]),
        (''generator'', JBool False), (''expression'', JBool False), (''async'', JBool False),
        (''params'', JArr []),
        (''body'', JObj [(''type'', JStr ''BlockStatement''), (''body'', JArr []),
                       (''range'', JArr [JNum 14, JNum 16])]),
        (''range'', JArr [JNum 0, JNum 16]),
        (''loc'', JObj [(''start'', JObj [(''line'', JNum 1), (''column'', JNum 0)]),
                        (''end'', JObj [(''line'', JNum 1), (''column'', JNum 16)])])]]),
     (''comments'', JArr []),
     (''sourceType'', JStr ''module''),
     (''tokens'', JArr [
        JObj [(''type'', JStr ''Keyword''), (''value'', JStr ''function''),
              (''range'', JArr [JNum 0, JNum 8]),
              (''loc'', JObj [(''start'', JObj [(''line'', JNum 1), (''column'', JNum 0)]),
                              (''end'', JObj [(''line'', JNum 1), (''column'', JNum 8)])])],
        JObj [(''type'', JStr ''Identifier''), (''value'', JStr ''foo''),
              (''range'', JArr [JNum 9, JNum 12]),
              (''loc'', JObj [(''start'', JObj [(''line'', JNum 1), (''column'', JNum 9)]),
                              (''end'', JObj [(''line'', JNum 1), (''column'', JNum 12)])])],
        JObj [(''type'', JStr ''Punctuator''), (''value'', JStr ''(''),
              (''range'', JArr [JNum 12, JNum 13])],
        JObj [(''type'', JStr ''Punctuator''), (''value'', JStr '')''),
              (''range'', JArr [JNum 13, JNum 14])],
        JObj [(''type'', JStr ''Punctuator''), (''value'', JStr ''{''),
              (''range'', JArr [JNum 14, JNum 15])],
        JObj [(''type'', JStr ''Punctuator''), (''value'', JStr ''}''),
              (''range'', JArr [JNum 15, JNum 16])]]),
     (''range'', JArr [JNum 0, JNum 16])]"

definition scenarioA_env :: env where
  "scenarioA_env = \<lparr>env_cwd = ''/proj'',
     env_readFile = (\<lambda>p. if p = ''src/a.ts'' then Some ''function foo(){}'' else None),
     env_statSize = (\<lambda>p. if p = ''src/a.ts'' then Some 16 else None),
     env_tsParse = (\<lambda>c. if c = ''function foo(){}'' then Some scenarioA_ast else None),
     env_babelParse = (\<lambda>c. None),
     env_regExp = (\<lambda>p. None)\<rparr>"

text \<open>A function declaration \<open>Widget\<close> on line 3 of a file: the fields of its node, and
  the program that holds it.\<close>

definition widget_declaration :: "(string \<times> json) list" where
  "widget_declaration = [(''type'', JStr ''FunctionDeclaration''),
     (''id'', JObj [(''type'', JStr ''Identifier''), (''name'', JStr ''Widget'')]),
     (''params'', JArr []),
     (''body'', JObj [(''type'', JStr ''BlockStatement''), (''body'', JArr [])]),
     (''loc'', JObj [(''start'', JObj [(''line'', JNum 3), (''column'', JNum 0)]),
                     (''end'', JObj [(''line'', JNum 3), (''column'', JNum 20)])])]"

definition widget_ast :: json where
  "widget_ast = JObj [(''type'', JStr ''Program''),
     (''body'', JArr [JObj widget_declaration]),
     (''sourceType'', JStr ''module'')]"

text \<open>The fields of the node of \<open>const Card = () => null, count = 1\<close> on line 2 of a
  file.\<close>

definition card_declaration :: "(string \<times> json) list" where
  "card_declaration = [(''type'', JStr ''VariableDeclaration''),
     (''declarations'', JArr [
        JObj [(''type'', JStr ''VariableDeclarator''),
              (''id'', JObj [(''type'', JStr ''Identifier''), (''name'', JStr ''Card'')]),
              (''init'', JObj [(''type'', JStr ''ArrowFunctionExpression''),
                               (''params'', JArr []),
                               (''body'', JObj [(''type'', JStr ''Literal''), (''value'', JNull)])])],
        JObj [(''type'', JStr ''VariableDeclarator''),
              (''id'', JObj [(''type'', JStr ''Identifier''), (''name'', JStr ''count'')]),
              (''init'', JObj [(''type'', JStr ''Literal''), (''value'', JNum 1)])]]),
     (''kind'', JStr ''const''),
     (''loc'', JObj [(''start'', JObj [(''line'', JNum 2), (''column'', JNum 0)]),
                     (''end'', JObj [(''line'', JNum 2), (''column'', JNum 36)])])]"

text \<open>A file set in which \<open>src/a.ts\<close> cannot be read.\<close>

definition unreadable_env :: env where
  "unreadable_env = \<lparr>env_cwd = ''/proj'',
     env_readFile = (\<lambda>p. if p = ''src/b.ts'' then Some ''const b = 1'' else None),
     env_statSize = (\<lambda>p. if p = ''src/b.ts'' then Some 11 else None),
     env_tsParse = (\<lambda>c. None),
     env_babelParse = (\<lambda>c. None),
     env_regExp = (\<lambda>p. None)\<rparr>"

text \<open>A file set in which \<open>src/broken.js\<close> does not parse.\<close>

definition brokenParse_env :: env where
  "brokenParse_env = \<lparr>env_cwd = ''/proj'',
     env_readFile = (\<lambda>p. if p = ''src/a.ts'' then Some ''function foo(){}''
                         else if p = ''src/broken.js'' then Some ''function ('' else None),
     env_statSize = (\<lambda>p. Some 16),
     env_tsParse = (\<lambda>c. if c = ''function foo(){}'' then Some scenarioA_ast else None),
     env_babelParse = (\<lambda>c. None),
     env_regExp = (\<lambda>p. None)\<rparr>"

text \<open>Two files: \<open>src/b.ts\<close> imports \<open>src/helper123.ts\<close>, which exports nothing.\<close>

definition imported_helper_env :: env where
  "imported_helper_env = \<lparr>env_cwd = ''/proj'',
     env_readFile = (\<lambda>p. if p = ''src/helper123.ts'' then Some ''const secret = 1''
                         else if p = ''src/b.ts'' then Some (''import h from '' @ [CHR 0x27] @ ''./helper123'' @ [CHR 0x27])
                         else None),
     env_statSize = (\<lambda>p. if p = ''src/helper123.ts'' then Some 16 else if p = ''src/b.ts'' then Some 27 else None),
     env_tsParse = (\<lambda>c. None),
     env_babelParse = (\<lambda>c. None),
     env_regExp = (\<lambda>p. None)\<rparr>"

text \<open>A file \<open>src/d.ts\<close> that declares a function with the name of a tag, \<open>div\<close>.\<close>

definition div_ast :: json where
  "div_ast = JObj [(''type'', JStr ''Program''),
     (''body'', JArr [JObj [(''type'', JStr ''FunctionDeclaration''),
        (''id'', JObj [(''type'', JStr ''Identifier''), (''name'', JStr ''div'')]),
        (''params'', JArr []),
        (''body'', JObj [(''type'', JStr ''BlockStatement''), (''body'', JArr [])]),
        (''loc'', JObj [(''start'', JObj [(''line'', JNum 1), (''column'', JNum 0)]),
                        (''end'', JObj [(''line'', JNum 1), (''column'', JNum 16)])])]]),
     (''sourceType'', JStr ''module'')]"

definition div_env :: env where
  "div_env = \<lparr>env_cwd = ''/proj'',
     env_readFile = (\<lambda>p. if p = ''src/d.ts'' then Some ''function div(){}'' else None),
     env_statSize = (\<lambda>p. if p = ''src/d.ts'' then Some 16 else None),
     env_tsParse = (\<lambda>c. if c = ''function div(){}'' then Some div_ast else None),
     env_babelParse = (\<lambda>c. None),
     env_regExp = (\<lambda>p. None)\<rparr>"

text \<open>A file whose path holds colons, \<open>src/x:div:y.ts\<close>, with the text and the tree of
  scenario A.\<close>

definition colon_env :: env where
  "colon_env = \<lparr>env_cwd = ''/proj'',
     env_readFile = (\<lambda>p. if p = ''src/x:div:y.ts'' then Some ''function foo(){}'' else None),
     env_statSize = (\<lambda>p. if p = ''src/x:div:y.ts'' then Some 16 else None),
     env_tsParse = (\<lambda>c. if c = ''function foo(){}'' then Some scenarioA_ast else None),
     env_babelParse = (\<lambda>c. None),
     env_regExp = (\<lambda>p. None)\<rparr>"

text \<open>The first file of a list that cannot be read.\<close>

definition first_unreadable :: "env \<Rightarrow> string list \<Rightarrow> string option" where
  "first_unreadable e files = List.find (\<lambda>f. env_readFile e f = None) files"

section \<open>Predicates of the properties\<close>

text \<open>The first character of a name is an uppercase letter.\<close>

definition starts_upper :: "string \<Rightarrow> bool" where
  "starts_upper name = (case name of [] \<Rightarrow> False | c # cs \<Rightarrow> is_upper c)"

text \<open>The test both strategies make before they record a name, written
  \<open>BUILT_INS.has(name) || isCommonPattern(name)\<close> wherever the source makes it.\<close>

definition isBuiltinOrCommon :: "string \<Rightarrow> bool" where
  "isBuiltinOrCommon name = (BUILT_INS_has name \<or> isCommonPattern name)"

text \<open>No name in the result of the analysis of a file passes that test.\<close>

definition names_filtered :: "ASTAnalysisResult \<Rightarrow> bool" where
  "names_filtered r =
     ((\<forall>d\<in>set (ast_definitions r). \<not> isBuiltinOrCommon (def_name d)) \<and>
      (\<forall>u\<in>set (ast_usages r). \<forall>n. usage_name u = Some n \<longrightarrow> \<not> isBuiltinOrCommon n) \<and>
      (\<forall>x\<in>set (ast_exports r). \<not> isBuiltinOrCommon x) \<and>
      (\<forall>x\<in>set (ast_imports r). \<not> isBuiltinOrCommon x))"

text \<open>A definition is a component exactly when its name starts with an uppercase letter
  and its file is an entry point, a function exactly when not.\<close>

definition classified :: "string \<Rightarrow> string \<Rightarrow> ASTAnalysisResult \<Rightarrow> bool" where
  "classified cwd filePath r =
     (\<forall>d\<in>set (ast_definitions r).
        (def_type d = Component \<longrightarrow>
           starts_upper (def_name d) \<and> isNextJsEntryPoint cwd filePath) \<and>
        (def_type d = Function \<longrightarrow>
           \<not> (starts_upper (def_name d) \<and> isNextJsEntryPoint cwd filePath)))"

text \<open>
  The classification as the property states it. A declarator is function-valued when
  its \<open>init\<close> is an arrow function or a function expression; a function-valued
  definition is a component exactly when its name starts with an uppercase letter and
  its file is an entry point (\<open>structural_kind\<close>). \<open>recorded_name\<close> is the name a
  declaration binds, when it passes the filters; \<open>function_definition\<close> and
  \<open>declarator_definition\<close> are the definitions a function declaration and a declarator
  of a variable declaration are then to give.
\<close>

definition function_valued :: "json \<Rightarrow> bool" where
  "function_valued declaration =
     (case field ''init'' declaration of
        Some i \<Rightarrow> truthy i \<and> (node_type i = Some ''ArrowFunctionExpression'' \<or>
                              node_type i = Some ''FunctionExpression'')
      | None \<Rightarrow> False)"

definition structural_kind :: "string \<Rightarrow> string \<Rightarrow> string \<Rightarrow> deftype" where
  "structural_kind cwd name filePath =
     (if starts_upper name \<and> isNextJsEntryPoint cwd filePath then Component else Function)"

definition recorded_name :: "json \<Rightarrow> string option" where
  "recorded_name declaration =
     (case name_of (field ''id'' declaration) of
        Some name \<Rightarrow> if name = [] \<or> isBuiltinOrCommon name then None else Some name
      | None \<Rightarrow> None)"

definition function_definition :: "string \<Rightarrow> json \<Rightarrow> string \<Rightarrow> ASTDefinition option" where
  "function_definition cwd node filePath =
     map_option (\<lambda>name. \<lparr>def_name = name, def_type = structural_kind cwd name filePath,
                           def_line = line_of_node node\<rparr>)
       (recorded_name node)"

definition declarator_definition ::
  "string \<Rightarrow> json \<Rightarrow> string \<Rightarrow> json \<Rightarrow> ASTDefinition option" where
  "declarator_definition cwd node filePath declaration =
     map_option (\<lambda>name. \<lparr>def_name = name,
                           def_type = (if function_valued declaration
                                       then structural_kind cwd name filePath else Variable),
                           def_line = line_of_node node\<rparr>)
       (recorded_name declaration)"

text \<open>A run returns, or ends with the \<open>SyntaxError\<close> of a \<open>RegExp\<close>: no failure to read a
  file ends it.\<close>

fun returns_or_rejects :: "error + 'a \<Rightarrow> bool" where
  "returns_or_rejects (Inr r) = True"
| "returns_or_rejects (Inl (RegExpSyntaxError p)) = True"
| "returns_or_rejects (Inl (FileReadFailure g)) = False"

text \<open>The occurrences a usage map holds for a name.\<close>

definition occurrences :: "usage_map \<Rightarrow> string option \<Rightarrow> (string \<times> int) list" where
  "occurrences um name = (case um name of Some us \<Rightarrow> us | None \<Rightarrow> [])"

text \<open>A usage of the name with the context \<open>reference\<close> is recorded.\<close>

definition has_reference :: "ASTAnalysisResult \<Rightarrow> string \<Rightarrow> bool" where
  "has_reference r name =
     (\<exists>u\<in>set (ast_usages r). usage_name u = Some name \<and> usage_context u = ''reference'')"

text \<open>
  What the proofs about declarations need of a tree the parsers return: the target a
  function declaration or a variable declarator binds (its \<open>id\<close>), when it has a \<open>name\<close>,
  is an \<open>Identifier\<close> node. In an ESTree the other binding targets (object and array
  patterns) have no \<open>name\<close>.
\<close>

definition binds_identifier :: "json \<Rightarrow> bool" where
  "binds_identifier n =
     (case field ''id'' n of
        Some i \<Rightarrow> name_of (Some i) = None \<or> node_type i = Some ''Identifier''
      | None \<Rightarrow> True)"

fun estree :: "json \<Rightarrow> bool" where
  "estree (JObj fs) =
     ((node_type (JObj fs) = Some ''FunctionDeclaration'' \<longrightarrow> binds_identifier (JObj fs)) \<and>
      (node_type (JObj fs) = Some ''VariableDeclaration'' \<longrightarrow>
         (\<forall>d\<in>set (elements (field ''declarations'' (JObj fs))). binds_identifier d)) \<and>
      (\<forall>v\<in>set (map snd fs). estree v))"
| "estree (JArr xs) = (\<forall>x\<in>set xs. estree x)"
| "estree v = True"

text \<open>From \<open>r\<close> to \<open>r'\<close> no usage is lost, and every definition that is not an import is
  one of \<open>r\<close> or has a reference in \<open>r'\<close>.\<close>

definition declarations_referenced :: "ASTAnalysisResult \<Rightarrow> ASTAnalysisResult \<Rightarrow> bool" where
  "declarations_referenced r r' =
     (set (ast_usages r) \<subseteq> set (ast_usages r') \<and>
      (\<forall>d\<in>set (ast_definitions r'). def_type d \<noteq> Import \<longrightarrow>
         d \<in> set (ast_definitions r) \<or> has_reference r' (def_name d)))"

text \<open>No name that passes the test is a key of a usage map, is defined in the collections
  of \<open>analyzeAllFiles\<close>, or is in a set of the definitions of a file.\<close>

definition filtered_map :: "usage_map \<Rightarrow> bool" where
  "filtered_map um = (\<forall>n. isBuiltinOrCommon n \<longrightarrow> um (Some n) = None)"

definition filtered_results :: "ASTResults \<Rightarrow> bool" where
  "filtered_results a =
     (filtered_map (all_usages a) \<and>
      (\<forall>entry\<in>set (all_definitions a). \<forall>d\<in>set (snd entry). \<not> isBuiltinOrCommon (def_name d)))"

definition filtered_definitions :: "FileDefinitions \<Rightarrow> bool" where
  "filtered_definitions defs =
     (\<forall>n\<in>set (fd_components defs) \<union> set (fd_functions defs) \<union> set (fd_variables defs) \<union>
          set (fd_imports defs). \<not> isBuiltinOrCommon n)"

section \<open>Facts about the matcher\<close>

lemma first_some_None: "first_some f xs = None \<longleftrightarrow> (\<forall>x\<in>set xs. f x = None)"
  by (induction xs) (auto split: option.splits)

lemma first_some_Cons_tail: "first_some f xs = None \<Longrightarrow> first_some f (x # xs) = f x"
  by (cases "f x") simp_all

lemma match_at_Bos_pos: "0 < i \<Longrightarrow> match_at (Seq Bos r) s i = None"
  by (simp add: match_at_def)

text \<open>A pattern anchored with \<open>^\<close> can only match at the start.\<close>

lemma exec_from_Bos: "exec_from (Seq Bos r) s 0 = match_at (Seq Bos r) s 0"
proof -
  have tail: "first_some (match_at (Seq Bos r) s) [Suc 0..<Suc (length s)] = None"
    unfolding first_some_None by (auto intro: match_at_Bos_pos)
  have "[0..<Suc (length s)] = 0 # [Suc 0..<Suc (length s)]"
    by (rule upt_conv_Cons) simp
  then have "exec_from (Seq Bos r) s 0 =
      first_some (match_at (Seq Bos r) s) (0 # [Suc 0..<Suc (length s)])"
    unfolding exec_from_def by (rule arg_cong)
  also have "\<dots> = match_at (Seq Bos r) s 0"
    using tail by (rule first_some_Cons_tail)
  finally show ?thesis .
qed

lemma rx_test_Bos: "rx_test (Seq Bos r) s = (mt r s (0, []) \<noteq> [])"
  unfolding rx_test_def exec_from_Bos by (simp add: match_at_def split: list.splits)

lemma rx_test_empty: "rx_test r [] = (mt r [] (0, []) \<noteq> [])"
  by (simp add: rx_test_def exec_from_def match_at_def split: list.splits)

lemma rx_test_upper: "rx_test (Seq Bos (Ch is_upper)) name = starts_upper name"
  by (cases name) (simp_all add: rx_test_Bos starts_upper_def)

subsection \<open>Progress of a match\<close>

text \<open>A match ends inside the text, at least \<open>min_len\<close> characters after its start.\<close>

lemma iter_greedy_bounds:
  assumes f: "\<And>x y. y \<in> set (f x) \<Longrightarrow> fst x \<le> fst y \<and> (fst x \<le> L \<longrightarrow> fst y \<le> L)"
  shows "y \<in> set (iter_greedy f n x) \<Longrightarrow> fst x \<le> fst y \<and> (fst x \<le> L \<longrightarrow> fst y \<le> L)"
proof (induction n arbitrary: x)
  case 0
  then show ?case by simp
next
  case (Suc n)
  from Suc.prems consider "y = x"
    | z where "z \<in> set (f x)" "fst x < fst z" "y \<in> set (iter_greedy f n z)"
    by (auto split: if_splits)
  then show ?case
  proof cases
    case 1
    then show ?thesis by simp
  next
    case 2
    from f [OF 2(1)] Suc.IH [OF 2(3)] show ?thesis by auto
  qed
qed

lemma iter_lazy_bounds:
  assumes f: "\<And>x y. y \<in> set (f x) \<Longrightarrow> fst x \<le> fst y \<and> (fst x \<le> L \<longrightarrow> fst y \<le> L)"
  shows "y \<in> set (iter_lazy f n x) \<Longrightarrow> fst x \<le> fst y \<and> (fst x \<le> L \<longrightarrow> fst y \<le> L)"
proof (induction n arbitrary: x)
  case 0
  then show ?case by simp
next
  case (Suc n)
  from Suc.prems consider "y = x"
    | z where "z \<in> set (f x)" "fst x < fst z" "y \<in> set (iter_lazy f n z)"
    by (auto split: if_splits)
  then show ?case
  proof cases
    case 1
    then show ?thesis by simp
  next
    case 2
    from f [OF 2(1)] Suc.IH [OF 2(3)] show ?thesis by auto
  qed
qed

lemma mt_bounds:
  "st' \<in> set (mt r s st) \<Longrightarrow>
   fst st + min_len r \<le> fst st' \<and> (fst st \<le> length s \<longrightarrow> fst st' \<le> length s)"
proof (induction r arbitrary: st st')
  case (Seq a b)
  from Seq.prems obtain mid where "mid \<in> set (mt a s st)" "st' \<in> set (mt b s mid)"
    by auto
  from Seq.IH(1) [OF this(1)] Seq.IH(2) [OF this(2)] show ?case by auto
next
  case (Star a)
  have "fst st \<le> fst st' \<and> (fst st \<le> length s \<longrightarrow> fst st' \<le> length s)"
  proof (rule iter_greedy_bounds [where f = "mt a s" and n = "length s"])
    show "st' \<in> set (iter_greedy (mt a s) (length s) st)" using Star.prems by simp
  next
    fix x y assume "y \<in> set (mt a s x)"
    from Star.IH [OF this] show "fst x \<le> fst y \<and> (fst x \<le> length s \<longrightarrow> fst y \<le> length s)"
      by auto
  qed
  then show ?case by simp
next
  case (StarLazy a)
  have "fst st \<le> fst st' \<and> (fst st \<le> length s \<longrightarrow> fst st' \<le> length s)"
  proof (rule iter_lazy_bounds [where f = "mt a s" and n = "length s"])
    show "st' \<in> set (iter_lazy (mt a s) (length s) st)" using StarLazy.prems by simp
  next
    fix x y assume "y \<in> set (mt a s x)"
    from StarLazy.IH [OF this]
    show "fst x \<le> fst y \<and> (fst x \<le> length s \<longrightarrow> fst y \<le> length s)"
      by auto
  qed
  then show ?case by simp
next
  case (Alt a b)
  then show ?case by fastforce
next
  case (Grp k a)
  from Grp.prems obtain st0 where "st0 \<in> set (mt a s st)" "fst st' = fst st0"
    by auto
  with Grp.IH [OF this(1)] show ?case by simp
qed (auto split: if_splits)

lemma first_some_mem: "first_some f xs = Some y \<Longrightarrow> \<exists>x\<in>set xs. f x = Some y"
  by (induction xs) (auto split: option.splits)

lemma exec_from_bounds:
  assumes "exec_from r s i = Some (b, e, c)"
  shows "i \<le> b \<and> b + min_len r \<le> e \<and> e \<le> length s"
proof -
  from assms obtain j where j: "i \<le> j" "j \<le> length s" "match_at r s j = Some (b, e, c)"
    unfolding exec_from_def by (auto dest!: first_some_mem)
  then have "b = j" and "\<exists>st\<in>set (mt r s (j, [])). e = fst st"
    by (cases "mt r s (j, [])"; auto simp: match_at_def)+
  then obtain st where "st \<in> set (mt r s (j, []))" "b = j" "e = fst st"
    by blast
  with mt_bounds [of st r s "(j, [])"] j show ?thesis by auto
qed

text \<open>On a pattern that consumes a character the loop is the loop of the source, and
  every pattern the source runs in such a loop consumes one.\<close>

lemma exec_all_consuming:
  "0 < min_len r \<Longrightarrow>
   exec_all r s i =
     (case exec_from r s i of None \<Rightarrow> [] | Some (b, e, c) \<Rightarrow> (b, e, c) # exec_all r s e)"
  by (subst exec_all.simps) (auto split: option.splits dest: exec_from_bounds)

lemma patterns_consume:
  "list_all (\<lambda>r. 0 < min_len r)
     (PATTERNS_component @ PATTERNS_function @ PATTERNS_variable @ PATTERNS_import @
      PATTERNS_usage @ [typeImportPattern, lineComment, blockComment])"
  by code_simp

section \<open>Facts about the traversal\<close>

lemma fold_invariant:
  "(\<And>x r. x \<in> set xs \<Longrightarrow> P r \<Longrightarrow> P (f x r)) \<Longrightarrow> P r \<Longrightarrow> P (fold f xs r)"
  by (induction xs arbitrary: r) auto

text \<open>The switch of \<open>traverseAST\<close>, as a case rule.\<close>

lemma switch_cases:
  assumes "node_type (JObj fs) = Some ''Program'' \<Longrightarrow>
             Q (traverse_each cwd (elements (field ''body'' (JObj fs))) filePath r)"
    and "Q (handleImportDeclaration (JObj fs) r)"
    and "\<And>d. node_type (JObj fs) = Some ''ExportNamedDeclaration'' \<Longrightarrow>
             field ''declaration'' (JObj fs) = Some d \<Longrightarrow> truthy d \<Longrightarrow>
             Q (traverseAST cwd d filePath r)"
    and "Q (export_specifiers (JObj fs) r)"
    and "\<And>d. node_type (JObj fs) = Some ''ExportDefaultDeclaration'' \<Longrightarrow>
             field ''declaration'' (JObj fs) = Some d \<Longrightarrow> truthy d \<Longrightarrow>
             Q (traverseAST cwd d filePath r)"
    and "node_type (JObj fs) = Some ''VariableDeclaration'' \<Longrightarrow>
             Q (handleVariableDeclaration cwd (JObj fs) filePath r)"
    and "node_type (JObj fs) = Some ''FunctionDeclaration'' \<Longrightarrow>
             Q (handleFunctionDeclaration cwd (JObj fs) filePath r)"
    and "\<And>name ctx. Q (push_usage name (JObj fs) ctx r)"
    and "\<And>a. node_type (JObj fs) = Some ''TypeScript'' \<Longrightarrow>
             field ''typeAnnotation'' (JObj fs) = Some a \<Longrightarrow> truthy a \<Longrightarrow>
             Q (traverseAST cwd a filePath r)"
    and "Q r"
  shows "Q (let node = JObj fs; t = node_type node in
        if t = Some ''Program''
        then traverse_each cwd (elements (field ''body'' (JObj fs))) filePath r
        else if t = Some ''ImportDeclaration'' then handleImportDeclaration node r
        else if t = Some ''ExportNamedDeclaration''
        then (case field ''declaration'' (JObj fs) of
                Some d \<Rightarrow> if truthy d then traverseAST cwd d filePath r
                          else export_specifiers node r
              | None \<Rightarrow> export_specifiers node r)
        else if t = Some ''ExportDefaultDeclaration''
        then (case field ''declaration'' (JObj fs) of
                Some d \<Rightarrow> if truthy d then traverseAST cwd d filePath r else r
              | None \<Rightarrow> r)
        else if t = Some ''VariableDeclaration'' then handleVariableDeclaration cwd node filePath r
        else if t = Some ''FunctionDeclaration'' then handleFunctionDeclaration cwd node filePath r
        else if t = Some ''FunctionExpression'' then r
        else if t = Some ''ArrowFunctionExpression'' then r
        else if t = Some ''CallExpression'' then handleCallExpression node r
        else if t = Some ''JSXElement'' then handleJSXElement node r
        else if t = Some ''JSXIdentifier'' then handleJSXIdentifier node r
        else if t = Some ''Identifier'' then handleIdentifier node r
        else if t = Some ''MemberExpression'' then handleMemberExpression node r
        else if t = Some ''ObjectProperty'' then handleObjectProperty node r
        else if t = Some ''SpreadElement'' then handleSpreadElement node r
        else if t = Some ''TypeScript''
        then (case field ''typeAnnotation'' (JObj fs) of
                Some a \<Rightarrow> if truthy a then traverseAST cwd a filePath r else r
              | None \<Rightarrow> r)
        else r)"
  using assms
  by (auto simp: Let_def handleCallExpression_def handleJSXElement_def handleJSXIdentifier_def
      handleIdentifier_def handleMemberExpression_def handleObjectProperty_def
      handleSpreadElement_def push_identifier_child_def split: option.splits)

text \<open>A property every handler keeps is kept by the traversal.\<close>

lemma traverse_invariant:
  assumes imp: "\<And>cwd fp node r. P cwd fp r \<Longrightarrow> P cwd fp (handleImportDeclaration node r)"
    and exs: "\<And>cwd fp node r. P cwd fp r \<Longrightarrow> P cwd fp (export_specifiers node r)"
    and var: "\<And>cwd fp node r. P cwd fp r \<Longrightarrow> P cwd fp (handleVariableDeclaration cwd node fp r)"
    and fn: "\<And>cwd fp node r. P cwd fp r \<Longrightarrow> P cwd fp (handleFunctionDeclaration cwd node fp r)"
    and us: "\<And>cwd fp name node ctx r. P cwd fp r \<Longrightarrow> P cwd fp (push_usage name node ctx r)"
  shows "P cwd filePath r \<Longrightarrow> P cwd filePath (traverseAST cwd n filePath r)"
    and "P cwd filePath r \<Longrightarrow> P cwd filePath (traverse_each cwd xs filePath r)"
    and "P cwd filePath r \<Longrightarrow> P cwd filePath (traverse_keys cwd fs filePath r)"
    and "P cwd filePath r \<Longrightarrow> P cwd filePath (traverse_elems cwd ys filePath r)"

proof (induction cwd n filePath r and cwd xs filePath r and cwd fs filePath r and cwd ys filePath r
    rule: traverseAST_traverse_each_traverse_keys_traverse_elems.induct)
  case (1 cwd fs filePath r)
  show ?case
    apply (simp only: traverseAST.simps)
    apply (rule "1.IH"(5))
    using "1.prems" "1.IH"(1-4) imp exs var fn us
    by (auto simp: Let_def handleCallExpression_def handleJSXElement_def handleJSXIdentifier_def
        handleIdentifier_def handleMemberExpression_def handleObjectProperty_def
        handleSpreadElement_def push_identifier_child_def split: option.splits)
qed (auto split: json.splits)

subsection \<open>Recorded names pass the filters\<close>

lemma names_filtered_import:
  "names_filtered r \<Longrightarrow> names_filtered (handleImportDeclaration node r)"
  unfolding handleImportDeclaration_def
  by (rule fold_invariant)
     (auto simp: names_filtered_def isBuiltinOrCommon_def set_add_def split: option.splits)

lemma names_filtered_export:
  "names_filtered r \<Longrightarrow> names_filtered (export_specifiers node r)"
  unfolding export_specifiers_def
  by (rule fold_invariant)
     (auto simp: names_filtered_def isBuiltinOrCommon_def set_add_def split: option.splits)

lemma names_filtered_variable:
  "names_filtered r \<Longrightarrow> names_filtered (handleVariableDeclaration cwd node fp r)"
  unfolding handleVariableDeclaration_def
  by (rule fold_invariant)
     (auto simp: names_filtered_def isBuiltinOrCommon_def set_add_def Let_def split: option.splits)

lemma names_filtered_function:
  "names_filtered r \<Longrightarrow> names_filtered (handleFunctionDeclaration cwd node fp r)"
  by (auto simp: handleFunctionDeclaration_def names_filtered_def isBuiltinOrCommon_def
      set_add_def Let_def split: option.splits)

lemma names_filtered_usage:
  "names_filtered r \<Longrightarrow> names_filtered (push_usage name node ctx r)"
  by (auto simp: push_usage_def names_filtered_def isBuiltinOrCommon_def split: option.splits)

lemma names_filtered_traverseAST:
  "names_filtered r \<Longrightarrow> names_filtered (traverseAST cwd n filePath r)"
  by (rule traverse_invariant(1) [where P = "\<lambda>cwd fp. names_filtered"])
     (auto intro: names_filtered_import names_filtered_export names_filtered_variable
        names_filtered_function names_filtered_usage)

subsection \<open>Classification with no content\<close>

lemma isLikelyComponent_no_content:
  "isLikelyComponent cwd name [] filePath = (starts_upper name \<and> isNextJsEntryPoint cwd filePath)"
  by (simp add: isLikelyComponent_def rx_test_upper rx_test_empty lit_def Plus_def Opt_def
      REACT_HOOKS_REGEX_def)

lemma classified_import:
  "classified cwd fp r \<Longrightarrow> classified cwd fp (handleImportDeclaration node r)"
  unfolding handleImportDeclaration_def
  by (rule fold_invariant) (auto simp: classified_def split: option.splits)

lemma classified_export:
  "classified cwd fp r \<Longrightarrow> classified cwd fp (export_specifiers node r)"
  unfolding export_specifiers_def
  by (rule fold_invariant) (auto simp: classified_def split: option.splits)

lemma classified_variable:
  "classified cwd fp r \<Longrightarrow> classified cwd fp (handleVariableDeclaration cwd node fp r)"
  unfolding handleVariableDeclaration_def
  by (rule fold_invariant)
     (auto simp: classified_def isLikelyComponent_no_content Let_def split: option.splits)

lemma classified_function:
  "classified cwd fp r \<Longrightarrow> classified cwd fp (handleFunctionDeclaration cwd node fp r)"
  by (auto simp: handleFunctionDeclaration_def classified_def isLikelyComponent_no_content
      Let_def split: option.splits)

lemma classified_usage:
  "classified cwd fp r \<Longrightarrow> classified cwd fp (push_usage name node ctx r)"
  by (auto simp: push_usage_def classified_def split: option.splits)

lemma classified_traverseAST:
  "classified cwd filePath r \<Longrightarrow> classified cwd filePath (traverseAST cwd n filePath r)"
  by (rule traverse_invariant(1) [where P = classified])
     (auto intro: classified_import classified_export classified_variable
        classified_function classified_usage)

subsection \<open>Declarations and the references to their own names\<close>

lemma referenced_refl: "declarations_referenced r r"
  by (simp add: declarations_referenced_def)

lemma referenced_trans: "declarations_referenced a b \<Longrightarrow> declarations_referenced b c \<Longrightarrow> declarations_referenced a c"
  unfolding declarations_referenced_def has_reference_def by (meson subsetD subset_trans)

lemma has_reference_traverse:
  "has_reference r name \<Longrightarrow> has_reference (traverseAST cwd n filePath r) name"
  "has_reference r name \<Longrightarrow> has_reference (traverse_each cwd xs filePath r) name"
  "has_reference r name \<Longrightarrow> has_reference (traverse_keys cwd fs filePath r) name"
  "has_reference r name \<Longrightarrow> has_reference (traverse_elems cwd ys filePath r) name"
proof -
  have imp: "\<And>node r. has_reference r name \<Longrightarrow> has_reference (handleImportDeclaration node r) name"
    unfolding handleImportDeclaration_def
    by (rule fold_invariant) (auto simp: has_reference_def split: option.splits)
  have exs: "\<And>node r. has_reference r name \<Longrightarrow> has_reference (export_specifiers node r) name"
    unfolding export_specifiers_def
    by (rule fold_invariant) (auto simp: has_reference_def split: option.splits)
  have var: "\<And>cwd fp node r. has_reference r name \<Longrightarrow>
      has_reference (handleVariableDeclaration cwd node fp r) name"
    unfolding handleVariableDeclaration_def
    by (rule fold_invariant) (auto simp: has_reference_def Let_def split: option.splits)
  have fn: "\<And>cwd fp node r. has_reference r name \<Longrightarrow>
      has_reference (handleFunctionDeclaration cwd node fp r) name"
    by (auto simp: handleFunctionDeclaration_def has_reference_def Let_def split: option.splits)
  have us: "\<And>n node ctx r. has_reference r name \<Longrightarrow> has_reference (push_usage n node ctx r) name"
    by (auto simp: push_usage_def has_reference_def split: option.splits)
  note hs = imp exs var fn us
  show "has_reference r name \<Longrightarrow> has_reference (traverseAST cwd n filePath r) name"
    by (rule traverse_invariant(1) [where P = "\<lambda>cwd fp r. has_reference r name"]) (auto intro: hs)
  show "has_reference r name \<Longrightarrow> has_reference (traverse_each cwd xs filePath r) name"
    by (rule traverse_invariant(2) [where P = "\<lambda>cwd fp r. has_reference r name"]) (auto intro: hs)
  show "has_reference r name \<Longrightarrow> has_reference (traverse_keys cwd fs filePath r) name"
    by (rule traverse_invariant(3) [where P = "\<lambda>cwd fp r. has_reference r name"]) (auto intro: hs)
  show "has_reference r name \<Longrightarrow> has_reference (traverse_elems cwd ys filePath r) name"
    by (rule traverse_invariant(4) [where P = "\<lambda>cwd fp r. has_reference r name"]) (auto intro: hs)
qed

text \<open>The traversal of an object reaches the value of each of its keys but type and loc.\<close>

lemma keys_visit_object:
  assumes "(k, JObj ofs) \<in> set fs" "k \<noteq> ''type''" "k \<noteq> ''loc''"
    and "\<And>r. has_reference (traverseAST cwd (JObj ofs) filePath r) name"
  shows "has_reference (traverse_keys cwd fs filePath r0) name"
  using assms(1)
proof (induction fs arbitrary: r0)
  case Nil
  then show ?case by simp
next
  case (Cons kv fs)
  obtain k' v' where kv: "kv = (k', v')" by (cases kv)
  show ?case
  proof (cases "kv = (k, JObj ofs)")
    case True
    then show ?thesis
      using assms(2,3,4) by (simp add: has_reference_traverse(3))
  next
    case False
    with Cons.prems have "(k, JObj ofs) \<in> set fs" by simp
    then show ?thesis
      using Cons.IH kv by simp
  qed
qed

lemma keys_visit_array:
  assumes "(k, JArr ys) \<in> set fs" "k \<noteq> ''type''" "k \<noteq> ''loc''"
    and "\<And>r. has_reference (traverse_each cwd ys filePath r) name"
  shows "has_reference (traverse_keys cwd fs filePath r0) name"
  using assms(1)
proof (induction fs arbitrary: r0)
  case Nil
  then show ?case by simp
next
  case (Cons kv fs)
  obtain k' v' where kv: "kv = (k', v')" by (cases kv)
  show ?case
  proof (cases "kv = (k, JArr ys)")
    case True
    then show ?thesis
      using assms(2,3,4) by (simp add: has_reference_traverse(3))
  next
    case False
    with Cons.prems have "(k, JArr ys) \<in> set fs" by simp
    then show ?thesis
      using Cons.IH kv by simp
  qed
qed

lemma each_visit:
  assumes "y \<in> set ys" and "\<And>r. has_reference (traverseAST cwd y filePath r) name"
  shows "has_reference (traverse_each cwd ys filePath r0) name"
  using assms(1)
proof (induction ys arbitrary: r0)
  case Nil
  then show ?case by simp
next
  case (Cons x xs)
  show ?case
  proof (cases "x = y")
    case True
    then show ?thesis using assms(2) by (simp add: has_reference_traverse(2))
  next
    case False
    with Cons.prems have "y \<in> set xs" by simp
    then show ?thesis using Cons.IH by simp
  qed
qed

lemma identifier_referenced:
  assumes "node_type (JObj ofs) = Some ''Identifier''"
    and "name_of (Some (JObj ofs)) = Some name"
    and "\<not> BUILT_INS_has name" "\<not> isCommonPattern name"
  shows "has_reference (traverseAST cwd (JObj ofs) filePath r) name"
proof -
  have "has_reference (handleIdentifier (JObj ofs) r) name"
    using assms by (simp add: handleIdentifier_def push_usage_def has_reference_def)
  then show ?thesis
    using assms(1) by (simp add: has_reference_traverse(3))
qed

text \<open>The bound identifier of a declaration: the value of its key id.\<close>

lemma bound_id_referenced:
  assumes "name_of (field ''id'' (JObj fs)) = Some name"
    and "binds_identifier (JObj fs)"
    and "\<not> BUILT_INS_has name" "\<not> isCommonPattern name"
  shows "has_reference (traverse_keys cwd fs filePath r) name"
proof -
  from assms(1) obtain i where i: "field ''id'' (JObj fs) = Some i" "name_of (Some i) = Some name"
    by (cases "field ''id'' (JObj fs)") (auto simp: name_of_def)
  from i(2) obtain ofs where ofs: "i = JObj ofs"
    by (cases i) (auto simp: name_of_def)
  from assms(2) i have ty: "node_type i = Some ''Identifier''"
    by (simp add: binds_identifier_def)
  from i(1) have mem: "(''id'', JObj ofs) \<in> set fs"
    using ofs by (auto dest: map_of_SomeD)
  have ref: "has_reference (traverseAST cwd (JObj ofs) filePath r') name" for r'
    by (rule identifier_referenced) (use ty i(2) ofs assms(3,4) in simp_all)
  show ?thesis
    by (rule keys_visit_object [OF mem _ _ ref]) simp_all
qed

lemma function_declaration_defs:
  assumes "d \<in> set (ast_definitions (handleFunctionDeclaration cwd node fp r))"
  shows "d \<in> set (ast_definitions r) \<or>
         (name_of (field ''id'' node) = Some (def_name d) \<and>
          \<not> BUILT_INS_has (def_name d) \<and> \<not> isCommonPattern (def_name d))"
proof (cases "name_of (field ''id'' node)")
  case None
  with assms show ?thesis by (simp add: handleFunctionDeclaration_def)
next
  case (Some name)
  show ?thesis
  proof (cases "name = [] \<or> BUILT_INS_has name \<or> isCommonPattern name")
    case True
    with assms Some show ?thesis by (simp add: handleFunctionDeclaration_def)
  next
    case False
    with assms Some show ?thesis
      by (cases "isLikelyComponent cwd name [] fp"; cases "isExported node")
         (auto simp: handleFunctionDeclaration_def Let_def)
  qed
qed

lemma function_declaration_usages:
  "ast_usages (handleFunctionDeclaration cwd node fp r) = ast_usages r"
  by (simp add: handleFunctionDeclaration_def Let_def split: option.splits)


lemma variable_declaration_defs:
  assumes "d \<in> set (ast_definitions (handleVariableDeclaration cwd node fp r))"
  shows "d \<in> set (ast_definitions r) \<or>
         (\<exists>decl\<in>set (elements (field ''declarations'' node)).
            name_of (field ''id'' decl) = Some (def_name d) \<and>
            \<not> BUILT_INS_has (def_name d) \<and> \<not> isCommonPattern (def_name d))"
proof -
  let ?Q = "\<lambda>r'. \<forall>d\<in>set (ast_definitions r'). d \<in> set (ast_definitions r) \<or>
         (\<exists>decl\<in>set (elements (field ''declarations'' node)).
            name_of (field ''id'' decl) = Some (def_name d) \<and>
            \<not> BUILT_INS_has (def_name d) \<and> \<not> isCommonPattern (def_name d))"
  have "?Q (handleVariableDeclaration cwd node fp r)"
    unfolding handleVariableDeclaration_def
    by (rule fold_invariant) (auto simp: Let_def split: option.splits if_splits)
  with assms show ?thesis by blast
qed


lemma variable_declaration_usages:
  "ast_usages (handleVariableDeclaration cwd node fp r) = ast_usages r"
  unfolding handleVariableDeclaration_def
  by (rule fold_invariant) (auto simp: Let_def split: option.splits)


lemma declarator_referenced:
  assumes decl: "decl \<in> set (elements (field ''declarations'' (JObj fs)))"
    and nm: "name_of (field ''id'' decl) = Some name"
    and bi: "binds_identifier decl"
    and ok: "\<not> BUILT_INS_has name" "\<not> isCommonPattern name"
  shows "has_reference (traverse_keys cwd fs filePath r) name"
proof -
  from decl obtain ys where ys: "field ''declarations'' (JObj fs) = Some (JArr ys)" "decl \<in> set ys"
    by (cases "field ''declarations'' (JObj fs)") (auto simp: elements_def split: json.splits)
  then have mem: "(''declarations'', JArr ys) \<in> set fs"
    by (auto dest: map_of_SomeD)
  from nm obtain dfs where dfs: "decl = JObj dfs"
    by (cases decl) (auto simp: name_of_def)
  have one: "has_reference (traverseAST cwd decl filePath r') name" for r'
    using bound_id_referenced [of dfs name] nm bi ok dfs by simp
  have all: "has_reference (traverse_each cwd ys filePath r') name" for r'
    by (rule each_visit [OF ys(2) one])
  show ?thesis
    by (rule keys_visit_array [OF mem _ _ all]) simp_all
qed


lemma estree_field: "estree (JObj fs) \<Longrightarrow> field k (JObj fs) = Some v \<Longrightarrow> estree v"
  by (auto dest!: map_of_SomeD)


lemma estree_elements:
  assumes "estree (JObj fs)" "x \<in> set (elements (field k (JObj fs)))"
  shows "estree x"
proof -
  from assms(2) obtain ys where ys: "field k (JObj fs) = Some (JArr ys)" "x \<in> set ys"
    by (cases "field k (JObj fs)") (auto simp: elements_def split: json.splits)
  from estree_field [OF assms(1) ys(1)] ys(2) show ?thesis by simp
qed


lemma referenced_handlers:
  "declarations_referenced r (handleImportDeclaration node r)"
  "declarations_referenced r (export_specifiers node r)"
  "declarations_referenced r (push_usage name node ctx r)"
proof -
  show "declarations_referenced r (handleImportDeclaration node r)"
    unfolding handleImportDeclaration_def
    by (rule fold_invariant) (auto simp: declarations_referenced_def has_reference_def split: option.splits)
  show "declarations_referenced r (export_specifiers node r)"
    unfolding export_specifiers_def
    by (rule fold_invariant) (auto simp: declarations_referenced_def has_reference_def split: option.splits)
  show "declarations_referenced r (push_usage name node ctx r)"
    by (auto simp: push_usage_def declarations_referenced_def has_reference_def split: option.splits)
qed


lemma referenced_after_keys:
  assumes sub: "set (ast_usages r) \<subseteq> set (ast_usages r1)"
    and new: "\<And>d. d \<in> set (ast_definitions r1) \<Longrightarrow> def_type d \<noteq> Import \<Longrightarrow>
       d \<in> set (ast_definitions r) \<or> has_reference r1 (def_name d) \<or>
       (\<forall>r'. has_reference (traverse_keys cwd fs filePath r') (def_name d))"
    and keys: "declarations_referenced r1 (traverse_keys cwd fs filePath r1)"
  shows "declarations_referenced r (traverse_keys cwd fs filePath r1)"
  unfolding declarations_referenced_def
proof (intro conjI ballI impI)
  show "set (ast_usages r) \<subseteq> set (ast_usages (traverse_keys cwd fs filePath r1))"
    using sub keys by (auto simp: declarations_referenced_def)
next
  fix d
  assume d: "d \<in> set (ast_definitions (traverse_keys cwd fs filePath r1))" "def_type d \<noteq> Import"
  with keys consider "d \<in> set (ast_definitions r1)"
    | "has_reference (traverse_keys cwd fs filePath r1) (def_name d)"
    by (auto simp: declarations_referenced_def)
  then show "d \<in> set (ast_definitions r) \<or>
      has_reference (traverse_keys cwd fs filePath r1) (def_name d)"
  proof cases
    case 1
    from new [OF 1 d(2)] show ?thesis
      by (auto intro: has_reference_traverse(3))
  next
    case 2
    then show ?thesis by simp
  qed
qed

lemma referenced_traverse:
  "estree n \<Longrightarrow> declarations_referenced r (traverseAST cwd n filePath r)"
  "\<forall>x\<in>set xs. estree x \<Longrightarrow> declarations_referenced r (traverse_each cwd xs filePath r)"
  "\<forall>v\<in>set (map snd fs). estree v \<Longrightarrow> declarations_referenced r (traverse_keys cwd fs filePath r)"
  "\<forall>x\<in>set ys. estree x \<Longrightarrow> declarations_referenced r (traverse_elems cwd ys filePath r)"
proof (induction cwd n filePath r and cwd xs filePath r and cwd fs filePath r and cwd ys filePath r
    rule: traverseAST_traverse_each_traverse_keys_traverse_elems.induct)
  case (1 cwd fs filePath r)
  let ?node = "JObj fs"
  have vals: "\<forall>v\<in>set (map snd fs). estree v"
    using "1.prems" by simp
  note keys = "1.IH"(5) [OF vals]
  show ?case
  proof (cases "node_type ?node = Some ''FunctionDeclaration''")
    case True
    let ?r1 = "handleFunctionDeclaration cwd ?node filePath r"
    have bi: "binds_identifier ?node" using "1.prems" True by simp
    have "declarations_referenced r (traverse_keys cwd fs filePath ?r1)"
    proof (rule referenced_after_keys)
      show "set (ast_usages r) \<subseteq> set (ast_usages ?r1)"
        by (simp add: function_declaration_usages)
      show "declarations_referenced ?r1 (traverse_keys cwd fs filePath ?r1)"
        using keys True by (simp add: Let_def)
    next
      fix d assume "d \<in> set (ast_definitions ?r1)" "def_type d \<noteq> Import"
      then show "d \<in> set (ast_definitions r) \<or> has_reference ?r1 (def_name d) \<or>
         (\<forall>r'. has_reference (traverse_keys cwd fs filePath r') (def_name d))"
        using function_declaration_defs [of d cwd ?node filePath r] bi
        by (auto intro: bound_id_referenced)
    qed
    then show ?thesis using True by simp
  next
    case notfn: False
    show ?thesis
    proof (cases "node_type ?node = Some ''VariableDeclaration''")
      case True
      let ?r1 = "handleVariableDeclaration cwd ?node filePath r"
      have bi: "\<forall>d\<in>set (elements (field ''declarations'' ?node)). binds_identifier d"
        using "1.prems" True by simp
      have "declarations_referenced r (traverse_keys cwd fs filePath ?r1)"
      proof (rule referenced_after_keys)
        show "set (ast_usages r) \<subseteq> set (ast_usages ?r1)"
          by (simp add: variable_declaration_usages)
        show "declarations_referenced ?r1 (traverse_keys cwd fs filePath ?r1)"
          using keys True by (simp add: Let_def)
      next
        fix d assume "d \<in> set (ast_definitions ?r1)" "def_type d \<noteq> Import"
        then show "d \<in> set (ast_definitions r) \<or> has_reference ?r1 (def_name d) \<or>
           (\<forall>r'. has_reference (traverse_keys cwd fs filePath r') (def_name d))"
          using variable_declaration_defs [of d cwd ?node filePath r] bi
          by (auto intro: declarator_referenced)
      qed
      then show ?thesis using True by simp
    next
      case notvar: False
      have body: "\<forall>x\<in>set (elements (field ''body'' ?node)). estree x"
        using estree_elements [OF "1.prems"] by blast
      have sub: "\<And>k v. field k ?node = Some v \<Longrightarrow> estree v"
        using estree_field [OF "1.prems"] by blast
      show ?thesis
        apply (simp only: traverseAST.simps)
        apply (rule referenced_trans [OF _ keys])
        apply (rule switch_cases)
        subgoal using "1.IH"(1) body by simp
        subgoal by (rule referenced_handlers)
        subgoal for d using "1.IH"(2) [of ?node "node_type ?node" d] sub [of "''declaration''" d] by simp
        subgoal by (rule referenced_handlers)
        subgoal for d using "1.IH"(3) [of ?node "node_type ?node" d] sub [of "''declaration''" d] by simp
        subgoal using notvar by simp
        subgoal using notfn by simp
        subgoal by (rule referenced_handlers)
        subgoal for a using "1.IH"(4) [of ?node "node_type ?node" a] sub [of "''typeAnnotation''" a] by simp
        subgoal by (rule referenced_refl)
        done
    qed
  qed
next
  case (8 cwd c cs filePath r)
  then show ?case by (auto intro: referenced_trans)
next
  case (10 cwd k v kvs filePath r)
  then show ?case by (auto intro: referenced_trans referenced_refl split: json.splits)
next
  case (12 cwd v vs filePath r)
  then show ?case by (auto intro: referenced_trans referenced_refl split: json.splits)
qed (auto intro: referenced_refl)

section \<open>The classification heuristics\<close>

text \<open>
  C8. Whatever the content of the file and its path, \<open>isLikelyComponent\<close> is false for a
  name whose first character is not an uppercase letter (the empty name included).
\<close>

theorem isLikelyComponent_not_uppercase:
  "\<not> starts_upper name \<Longrightarrow> isLikelyComponent cwd name content filePath = False"
  by (simp add: isLikelyComponent_def rx_test_upper)

theorem isLikelyComponent_not_uppercase_witness:
  "\<not> starts_upper ''useThing'' \<and>
   isLikelyComponent ''/proj'' ''useThing'' ''return <div className=x/>'' ''/proj/src/app/page.tsx''
     = False"
proof -
  have h: "\<not> starts_upper ''useThing''"
    by (simp add: starts_upper_def is_upper_def)
  from h isLikelyComponent_not_uppercase [OF h] show ?thesis
    by (rule conjI)
qed

subsection \<open>What the handlers of the declarations record\<close>

lemma function_declaration_exact:
  "ast_definitions (handleFunctionDeclaration cwd node filePath r) =
     ast_definitions r @
     (case function_definition cwd node filePath of Some d \<Rightarrow> [d] | None \<Rightarrow> [])"
proof (cases "name_of (field ''id'' node)")
  case None
  then show ?thesis
    by (simp add: handleFunctionDeclaration_def function_definition_def recorded_name_def)
next
  case (Some name)
  show ?thesis
  proof (cases "name = [] \<or> BUILT_INS_has name \<or> isCommonPattern name")
    case True
    with Some show ?thesis
      by (auto simp: handleFunctionDeclaration_def function_definition_def recorded_name_def
          isBuiltinOrCommon_def)
  next
    case False
    with Some show ?thesis
      by (simp add: handleFunctionDeclaration_def function_definition_def recorded_name_def
          structural_kind_def isBuiltinOrCommon_def isLikelyComponent_no_content Let_def)
  qed
qed

lemma fold_definitions_exact:
  assumes "\<And>d r. ast_definitions (f d r) =
             ast_definitions r @ (case g d of Some x \<Rightarrow> [x] | None \<Rightarrow> [])"
  shows "ast_definitions (fold f ds r) = ast_definitions r @ List.map_filter g ds"
proof (induction ds arbitrary: r)
  case Nil
  show ?case by (simp add: List.map_filter_simps)
next
  case (Cons d ds)
  show ?case
    by (cases "g d") (simp_all add: Cons.IH assms List.map_filter_simps)
qed

lemma variable_declaration_exact:
  "ast_definitions (handleVariableDeclaration cwd node filePath r) =
     ast_definitions r @
     List.map_filter (declarator_definition cwd node filePath)
       (elements (field ''declarations'' node))"
  unfolding handleVariableDeclaration_def
proof (rule fold_definitions_exact)
  fix d :: json and r :: ASTAnalysisResult
  let ?step = "case name_of (field ''id'' d) of
               None \<Rightarrow> r
             | Some name \<Rightarrow>
                 if name = [] \<or> BUILT_INS_has name \<or> isCommonPattern name then r
                 else
                   let line = line_of_node node;
                       exported = isExported node;
                       init = field ''init'' d;
                       kind =
                         (case init of
                            Some i \<Rightarrow>
                              if truthy i
                              then (if node_type i = Some ''ArrowFunctionExpression'' \<or>
                                       node_type i = Some ''FunctionExpression''
                                    then (if isLikelyComponent cwd name [] filePath then Component
                                          else Function)
                                    else Variable)
                              else Variable
                          | None \<Rightarrow> Variable);
                       r1 = r\<lparr>ast_definitions := ast_definitions r @
                               [\<lparr>def_name = name, def_type = kind, def_line = line\<rparr>]\<rparr>
                   in if exported then r1\<lparr>ast_exports := set_add name (ast_exports r1)\<rparr> else r1"
  show "ast_definitions ?step =
        ast_definitions r @
        (case declarator_definition cwd node filePath d of Some x \<Rightarrow> [x] | None \<Rightarrow> [])"
  proof (cases "name_of (field ''id'' d)")
    case None
    then show ?thesis
      by (simp add: declarator_definition_def recorded_name_def)
  next
    case (Some name)
    show ?thesis
    proof (cases "name = [] \<or> BUILT_INS_has name \<or> isCommonPattern name")
      case True
      with Some show ?thesis
        by (auto simp: declarator_definition_def recorded_name_def isBuiltinOrCommon_def)
    next
      case False
      with Some show ?thesis
        by (cases "field ''init'' d")
           (simp_all add: declarator_definition_def recorded_name_def function_valued_def
              structural_kind_def isBuiltinOrCommon_def isLikelyComponent_no_content Let_def)
    qed
  qed
qed

lemma definition_kept_import:
  "d \<in> set (ast_definitions r) \<Longrightarrow> d \<in> set (ast_definitions (handleImportDeclaration node r))"
  unfolding handleImportDeclaration_def
  by (rule fold_invariant [where P = "\<lambda>r. d \<in> set (ast_definitions r)"])
     (auto split: option.splits)

lemma definition_kept_export:
  "d \<in> set (ast_definitions r) \<Longrightarrow> d \<in> set (ast_definitions (export_specifiers node r))"
  unfolding export_specifiers_def
  by (rule fold_invariant [where P = "\<lambda>r. d \<in> set (ast_definitions r)"])
     (auto split: option.splits)

lemma definition_kept:
  "d \<in> set (ast_definitions r) \<Longrightarrow>
   d \<in> set (ast_definitions (traverse_keys cwd fs filePath r))"
  by (rule traverse_invariant(3) [where P = "\<lambda>cwd fp r. d \<in> set (ast_definitions r)"])
     (simp_all add: definition_kept_import definition_kept_export variable_declaration_exact
        function_declaration_exact push_usage_def)

lemma function_declaration_recorded:
  assumes "node_type (JObj fs) = Some ''FunctionDeclaration''"
    and "function_definition cwd (JObj fs) filePath = Some d"
  shows "d \<in> set (ast_definitions (traverseAST cwd (JObj fs) filePath r))"
proof -
  have "d \<in> set (ast_definitions (handleFunctionDeclaration cwd (JObj fs) filePath r))"
    using assms(2) by (simp add: function_declaration_exact)
  then have "d \<in> set (ast_definitions
      (traverse_keys cwd fs filePath (handleFunctionDeclaration cwd (JObj fs) filePath r)))"
    by (rule definition_kept)
  then show ?thesis
    using assms(1) by (simp add: Let_def)
qed

lemma variable_declaration_recorded:
  assumes "node_type (JObj fs) = Some ''VariableDeclaration''"
    and "declaration \<in> set (elements (field ''declarations'' (JObj fs)))"
    and "declarator_definition cwd (JObj fs) filePath declaration = Some d"
  shows "d \<in> set (ast_definitions (traverseAST cwd (JObj fs) filePath r))"
proof -
  have "d \<in> set (List.map_filter (declarator_definition cwd (JObj fs) filePath)
                    (elements (field ''declarations'' (JObj fs))))"
    using assms(2,3) by (force simp: List.map_filter_def)
  then have "d \<in> set (ast_definitions (handleVariableDeclaration cwd (JObj fs) filePath r))"
    by (simp add: variable_declaration_exact)
  then have "d \<in> set (ast_definitions
      (traverse_keys cwd fs filePath (handleVariableDeclaration cwd (JObj fs) filePath r)))"
    by (rule definition_kept)
  then show ?thesis
    using assms(1) by (simp add: Let_def)
qed

text \<open>
  C10. The structural strategy calls \<open>isLikelyComponent\<close> with the empty string for the
  content of the file. With no content the heuristic is the conjunction of two tests: the
  name starts with an uppercase letter, and the path is an entry point. So the handler of
  a function declaration records exactly the definition \<open>function_definition\<close>, and the
  handler of a variable declaration exactly the definitions \<open>declarator_definition\<close> of
  its declarators, in their order: a function-valued definition whose name passes the
  filters is recorded as a component when its name starts with an uppercase letter and
  its file is an entry point, and as a function when not. The traversal of the node of
  the declaration keeps that record, and in the result of any traversal every definition
  classified as a component passes both tests and none classified as a function does
  (\<open>classified\<close>): nothing in the text of the file (a returned tag, hooks, attributes, the
  client directive) has a say.
\<close>

theorem structural_classification:
  "isLikelyComponent cwd name [] filePath = (starts_upper name \<and> isNextJsEntryPoint cwd filePath) \<and>
   ast_definitions (handleFunctionDeclaration cwd node filePath r) =
     ast_definitions r @
     (case function_definition cwd node filePath of Some d \<Rightarrow> [d] | None \<Rightarrow> []) \<and>
   ast_definitions (handleVariableDeclaration cwd node filePath r) =
     ast_definitions r @
     List.map_filter (declarator_definition cwd node filePath)
       (elements (field ''declarations'' node)) \<and>
   (node_type (JObj fs) = Some ''FunctionDeclaration'' \<longrightarrow>
    function_definition cwd (JObj fs) filePath = Some d \<longrightarrow>
    d \<in> set (ast_definitions (traverseAST cwd (JObj fs) filePath r))) \<and>
   (node_type (JObj fs) = Some ''VariableDeclaration'' \<longrightarrow>
    declaration \<in> set (elements (field ''declarations'' (JObj fs))) \<longrightarrow>
    declarator_definition cwd (JObj fs) filePath declaration = Some d \<longrightarrow>
    d \<in> set (ast_definitions (traverseAST cwd (JObj fs) filePath r))) \<and>
   classified cwd filePath (traverseAST cwd ast filePath emptyResult)"
proof (intro conjI impI)
  show "isLikelyComponent cwd name [] filePath =
      (starts_upper name \<and> isNextJsEntryPoint cwd filePath)"
    by (rule isLikelyComponent_no_content)
  show "ast_definitions (handleFunctionDeclaration cwd node filePath r) =
     ast_definitions r @
     (case function_definition cwd node filePath of Some d \<Rightarrow> [d] | None \<Rightarrow> [])"
    by (rule function_declaration_exact)
  show "ast_definitions (handleVariableDeclaration cwd node filePath r) =
     ast_definitions r @
     List.map_filter (declarator_definition cwd node filePath)
       (elements (field ''declarations'' node))"
    by (rule variable_declaration_exact)
  show "d \<in> set (ast_definitions (traverseAST cwd (JObj fs) filePath r))"
    if "node_type (JObj fs) = Some ''FunctionDeclaration''"
      and "function_definition cwd (JObj fs) filePath = Some d"
    using that by (rule function_declaration_recorded)
  show "d \<in> set (ast_definitions (traverseAST cwd (JObj fs) filePath r))"
    if "node_type (JObj fs) = Some ''VariableDeclaration''"
      and "declaration \<in> set (elements (field ''declarations'' (JObj fs)))"
      and "declarator_definition cwd (JObj fs) filePath declaration = Some d"
    using that by (rule variable_declaration_recorded)
  have "classified cwd filePath emptyResult"
    by (simp add: classified_def emptyResult_def)
  then show "classified cwd filePath (traverseAST cwd ast filePath emptyResult)"
    by (rule classified_traverseAST)
qed

theorem structural_classification_witness:
  "\<lparr>def_name = ''Widget'', def_type = Component, def_line = 3\<rparr>
     \<in> set (ast_definitions
              (traverseAST ''/proj'' (JObj widget_declaration) ''src/app/page.tsx'' emptyResult)) \<and>
   \<lparr>def_name = ''Card'', def_type = Function, def_line = 2\<rparr>
     \<in> set (ast_definitions
              (traverseAST ''/proj'' (JObj card_declaration) ''src/widgets/card.tsx'' emptyResult)) \<and>
   ast_definitions
     (handleVariableDeclaration ''/proj'' (JObj card_declaration) ''src/app/page.tsx'' emptyResult) =
     [\<lparr>def_name = ''Card'', def_type = Component, def_line = 2\<rparr>,
      \<lparr>def_name = ''count'', def_type = Variable, def_line = 2\<rparr>]"
proof -
  let ?widget = "\<lparr>def_name = ''Widget'', def_type = Component, def_line = 3\<rparr>"
  let ?card = "\<lparr>def_name = ''Card'', def_type = Function, def_line = 2\<rparr>"
  let ?decl = "JObj [(''type'', JStr ''VariableDeclarator''),
              (''id'', JObj [(''type'', JStr ''Identifier''), (''name'', JStr ''Card'')]),
              (''init'', JObj [(''type'', JStr ''ArrowFunctionExpression''),
                               (''params'', JArr []),
                               (''body'', JObj [(''type'', JStr ''Literal''), (''value'', JNull)])])]"
  have w1: "node_type (JObj widget_declaration) = Some ''FunctionDeclaration''"
    by code_simp
  have w2: "function_definition ''/proj'' (JObj widget_declaration) ''src/app/page.tsx'' =
      Some ?widget"
    by code_simp
  have c1: "node_type (JObj card_declaration) = Some ''VariableDeclaration''"
    by code_simp
  have c2: "?decl \<in> set (elements (field ''declarations'' (JObj card_declaration)))"
    by code_simp
  have c3: "declarator_definition ''/proj'' (JObj card_declaration) ''src/widgets/card.tsx'' ?decl =
      Some ?card"
    by code_simp
  have c4: "ast_definitions emptyResult @
      List.map_filter (declarator_definition ''/proj'' (JObj card_declaration) ''src/app/page.tsx'')
        (elements (field ''declarations'' (JObj card_declaration))) =
      [\<lparr>def_name = ''Card'', def_type = Component, def_line = 2\<rparr>,
       \<lparr>def_name = ''count'', def_type = Variable, def_line = 2\<rparr>]"
    by code_simp
  note widget = structural_classification [of "''/proj''" "''Widget''" "''src/app/page.tsx''"
      "JObj card_declaration" emptyResult widget_declaration ?widget ?decl JNull]
  note card = structural_classification [of "''/proj''" "''Card''" "''src/widgets/card.tsx''"
      "JObj card_declaration" emptyResult card_declaration ?card ?decl JNull]
  from widget w1 w2 have "?widget \<in> set (ast_definitions
      (traverseAST ''/proj'' (JObj widget_declaration) ''src/app/page.tsx'' emptyResult))"
    by blast
  moreover from card c1 c2 c3 have "?card \<in> set (ast_definitions
      (traverseAST ''/proj'' (JObj card_declaration) ''src/widgets/card.tsx'' emptyResult))"
    by blast
  moreover from widget c4 have "ast_definitions
     (handleVariableDeclaration ''/proj'' (JObj card_declaration) ''src/app/page.tsx'' emptyResult) =
     [\<lparr>def_name = ''Card'', def_type = Component, def_line = 2\<rparr>,
      \<lparr>def_name = ''count'', def_type = Variable, def_line = 2\<rparr>]"
    by simp
  ultimately show ?thesis by blast
qed

section \<open>The structural strategy\<close>

subsection \<open>Usage maps\<close>

lemma occurrences_usage_push:
  "occurrences (usage_push n occ um) m =
     (if m = n then occurrences um n @ [occ] else occurrences um m)"
  by (simp add: occurrences_def usage_push_def)

lemma fold_usage_push_mono:
  "x \<in> set (occurrences um m) \<Longrightarrow>
   x \<in> set (occurrences (fold (\<lambda>u. usage_push (usage_name u) (rel, usage_line u)) us um) m)"
proof (induction us arbitrary: um)
  case Nil
  then show ?case by simp
next
  case (Cons a us)
  from Cons.prems have
    "x \<in> set (occurrences (usage_push (usage_name a) (rel, usage_line a) um) m)"
    by (auto simp: occurrences_usage_push)
  from Cons.IH [OF this] show ?case by simp
qed

lemma fold_usage_push_mem:
  "u \<in> set us \<Longrightarrow>
   (rel, usage_line u) \<in>
     set (occurrences (fold (\<lambda>u. usage_push (usage_name u) (rel, usage_line u)) us um)
            (usage_name u))"
proof (induction us arbitrary: um)
  case Nil
  then show ?case by simp
next
  case (Cons a us)
  show ?case
  proof (cases "u = a")
    case True
    then show ?thesis
      by (simp add: fold_usage_push_mono occurrences_usage_push)
  next
    case False
    with Cons show ?thesis by simp
  qed
qed

lemma analyzeAllFiles_file_usages:
  assumes "analyzeAllFiles_file e file acc = Inr acc'"
  obtains w result where "ASTAnalyzer_analyzeFile e file = Inr (w, result)"
    and "all_usages (snd acc') =
         fold (\<lambda>u. usage_push (usage_name u) (relative (env_cwd e) (env_cwd e) file, usage_line u))
              (ast_usages result) (all_usages (snd acc))"
  using assms
  by (cases "ASTAnalyzer_analyzeFile e file")
     (auto simp: analyzeAllFiles_file_def Let_def)

lemma analyzeAllFiles_file_mono:
  assumes "analyzeAllFiles_file e file acc = Inr acc'"
    and "x \<in> set (occurrences (all_usages (snd acc)) m)"
  shows "x \<in> set (occurrences (all_usages (snd acc')) m)"
  using assms(1)
proof (rule analyzeAllFiles_file_usages)
  fix w result
  assume "all_usages (snd acc') =
         fold (\<lambda>u. usage_push (usage_name u) (relative (env_cwd e) (env_cwd e) file, usage_line u))
              (ast_usages result) (all_usages (snd acc))"
  then show ?thesis
    using assms(2) by (simp add: fold_usage_push_mono)
qed

lemma analyzeAllFiles_loop_mono:
  "analyzeAllFiles_loop e files acc = Inr acc' \<Longrightarrow>
   x \<in> set (occurrences (all_usages (snd acc)) m) \<Longrightarrow>
   x \<in> set (occurrences (all_usages (snd acc')) m)"
proof (induction files arbitrary: acc)
  case Nil
  then show ?case by simp
next
  case (Cons f files)
  then show ?case
    by (cases "analyzeAllFiles_file e f acc") (auto dest: analyzeAllFiles_file_mono)
qed

lemma analyzeAllFiles_loop_file:
  "file \<in> set files \<Longrightarrow> analyzeAllFiles_loop e files acc = Inr accN \<Longrightarrow>
   \<exists>acc1 acc2. analyzeAllFiles_file e file acc1 = Inr acc2 \<and>
     (\<forall>x m. x \<in> set (occurrences (all_usages (snd acc2)) m) \<longrightarrow>
            x \<in> set (occurrences (all_usages (snd accN)) m))"
proof (induction files arbitrary: acc)
  case Nil
  then show ?case by simp
next
  case (Cons f files)
  from Cons.prems(2) obtain acc' where step: "analyzeAllFiles_file e f acc = Inr acc'"
    and rest: "analyzeAllFiles_loop e files acc' = Inr accN"
    by (cases "analyzeAllFiles_file e f acc") auto
  show ?case
  proof (cases "file = f")
    case True
    with step rest show ?thesis
      by (blast intro: analyzeAllFiles_loop_mono)
  next
    case False
    with Cons.prems(1) have "file \<in> set files" by simp
    from Cons.IH [OF this rest] show ?thesis .
  qed
qed

subsection \<open>Runs over readable and unreadable files\<close>

lemma analyzeAllFiles_file_readable:
  "env_readFile e f \<noteq> None \<Longrightarrow> \<exists>acc'. analyzeAllFiles_file e f acc = Inr acc'"
  by (auto simp: analyzeAllFiles_file_def ASTAnalyzer_analyzeFile_def Let_def
      split: option.splits)

lemma analyzeAllFiles_file_unreadable:
  "env_readFile e f = None \<Longrightarrow> analyzeAllFiles_file e f acc = Inl (FileReadFailure f)"
  by (simp add: analyzeAllFiles_file_def ASTAnalyzer_analyzeFile_def)

lemma analyzeAllFiles_loop_total:
  "\<forall>f\<in>set files. env_readFile e f \<noteq> None \<Longrightarrow> \<exists>r. analyzeAllFiles_loop e files acc = Inr r"
proof (induction files arbitrary: acc)
  case Nil
  then show ?case by simp
next
  case (Cons f files)
  then obtain acc' where "analyzeAllFiles_file e f acc = Inr acc'"
    using analyzeAllFiles_file_readable [of e f acc] by auto
  with Cons show ?case by simp
qed

lemma analyzeAllFiles_loop_unreadable:
  "first_unreadable e files = Some g \<Longrightarrow>
   analyzeAllFiles_loop e files acc = Inl (FileReadFailure g)"
proof (induction files arbitrary: acc)
  case Nil
  then show ?case by (simp add: first_unreadable_def)
next
  case (Cons f files)
  show ?case
  proof (cases "env_readFile e f")
    case None
    with Cons.prems show ?thesis
      by (simp add: first_unreadable_def analyzeAllFiles_file_unreadable)
  next
    case (Some content)
    then obtain acc' where "analyzeAllFiles_file e f acc = Inr acc'"
      using analyzeAllFiles_file_readable [of e f acc] by auto
    moreover from Some Cons.prems have "first_unreadable e files = Some g"
      by (simp add: first_unreadable_def)
    ultimately show ?thesis using Cons.IH by simp
  qed
qed

lemma buildUsageMap_loop_unreadable:
  "first_unreadable e files = Some g \<Longrightarrow>
   buildUsageMap_loop e srcDir files um = Inl (FileReadFailure g)"
  by (induction files arbitrary: um)
     (auto simp: first_unreadable_def split: option.splits if_splits)

lemma analyzeAllFiles_file_log:
  "analyzeAllFiles_file e f (log, a) =
   map_sum id (\<lambda>(l, r). (log @ l, r)) (analyzeAllFiles_file e f ([], a))"
  by (cases "ASTAnalyzer_analyzeFile e f") (auto simp: analyzeAllFiles_file_def Let_def)

lemma analyzeAllFiles_loop_log:
  "analyzeAllFiles_loop e files (log, a) =
   map_sum id (\<lambda>(l, r). (log @ l, r)) (analyzeAllFiles_loop e files ([], a))"
proof (induction files arbitrary: log a)
  case Nil
  then show ?case by simp
next
  case (Cons f files)
  show ?case
  proof (cases "analyzeAllFiles_file e f ([], a)")
    case (Inl err)
    then show ?thesis
      using analyzeAllFiles_file_log [of e f log a] by simp
  next
    case (Inr acc')
    obtain l r where acc': "acc' = (l, r)" by (cases acc')
    have step: "analyzeAllFiles_file e f (log, a) = Inr (log @ l, r)"
      using analyzeAllFiles_file_log [of e f log a] Inr acc' by simp
    show ?thesis
      using Inr acc' step Cons.IH [of "log @ l" r] Cons.IH [of l r]
      by (cases "analyzeAllFiles_loop e files ([], r)") auto
  qed
qed

lemma analyzeAllFiles_loop_append:
  "analyzeAllFiles_loop e (xs @ ys) acc =
   (case analyzeAllFiles_loop e xs acc of
      Inl err \<Rightarrow> Inl err
    | Inr acc' \<Rightarrow> analyzeAllFiles_loop e ys acc')"
  by (induction xs arbitrary: acc) (auto split: sum.splits)

lemma parse_failure_step:
  assumes "env_readFile e file = Some content"
    and "(if extname file = ''.ts'' \<or> extname file = ''.tsx'' then env_tsParse e content
          else env_babelParse e content) = None"
  shows "ASTAnalyzer_analyzeFile e file = Inr ([''Failed to parse '' @ file], emptyResult)"
    and "analyzeAllFiles_file e file (log, a) = Inr (log @ [''Failed to parse '' @ file], a)"
proof -
  show res: "ASTAnalyzer_analyzeFile e file = Inr ([''Failed to parse '' @ file], emptyResult)"
    using assms by (simp add: ASTAnalyzer_analyzeFile_def Let_def)
  show "analyzeAllFiles_file e file (log, a) = Inr (log @ [''Failed to parse '' @ file], a)"
    by (simp add: analyzeAllFiles_file_def res emptyResult_def)
qed

lemma returns_or_rejects_Inl:
  "returns_or_rejects (Inl err) = (\<forall>g. err \<noteq> FileReadFailure g)"
  by (cases err) simp_all

lemma importsAny_outcome: "returns_or_rejects (importsAny e paths content)"
  by (induction paths) (simp_all split: option.splits)

lemma isImported_outcome:
  "\<forall>f\<in>set others. env_readFile e f \<noteq> None \<Longrightarrow>
   returns_or_rejects (isImported e paths file others)"
proof (induction others)
  case Nil
  show ?case by simp
next
  case (Cons other others)
  show ?case
  proof (cases "other = file")
    case True
    with Cons show ?thesis by simp
  next
    case False
    from Cons.prems obtain content where content: "env_readFile e other = Some content"
      by auto
    show ?thesis
    proof (cases "importsAny e paths content")
      case (Inl err)
      with importsAny_outcome [of e paths content] False content show ?thesis
        by simp
    next
      case (Inr b)
      with False content Cons show ?thesis
        by (cases b) simp_all
    qed
  qed
qed

lemma findUnusedFiles_file_outcome:
  assumes "\<forall>f\<in>set allFiles. env_readFile e f \<noteq> None" "file \<in> set allFiles"
  shows "returns_or_rejects (findUnusedFiles_file e srcDir allFiles file acc)"
proof -
  obtain c where c: "env_readFile e file = Some c"
    using assms by auto
  show ?thesis
  proof (cases "isImported e (possibleImportPaths (env_cwd e) srcDir file) file allFiles")
    case (Inl err)
    moreover have "returns_or_rejects
        (isImported e (possibleImportPaths (env_cwd e) srcDir file) file allFiles)"
      using assms(1) by (rule isImported_outcome)
    ultimately show ?thesis
      by (simp add: findUnusedFiles_file_def Let_def returns_or_rejects_Inl)
  next
    case (Inr b)
    with c show ?thesis
      by (simp add: findUnusedFiles_file_def Let_def split: option.splits)
  qed
qed

lemma findUnusedFiles_loop_outcome:
  assumes "\<forall>f\<in>set allFiles. env_readFile e f \<noteq> None"
  shows "set files \<subseteq> set allFiles \<Longrightarrow>
         returns_or_rejects (findUnusedFiles_loop e srcDir allFiles files acc)"
proof (induction files arbitrary: acc)
  case Nil
  then show ?case by simp
next
  case (Cons f files)
  show ?case
  proof (cases "findUnusedFiles_file e srcDir allFiles f acc")
    case (Inl err)
    with findUnusedFiles_file_outcome [OF assms, of f srcDir acc] Cons.prems show ?thesis
      by simp
  next
    case (Inr acc')
    with Cons show ?thesis by simp
  qed
qed

lemma findDeadCode_ast_continues:
  assumes "analyzeAllFiles e files = Inr (w, results)"
  shows "findDeadCode e srcDir ''ast'' files =
         (case findUnusedFiles e srcDir files (w, performASTAnalysis results emptyAnalysis) of
            Inl err \<Rightarrow> Inl err
          | Inr (w', a) \<Rightarrow> Inr (w', generateDeadCodeReport a))"
  using assms by (simp add: findDeadCode_def)

lemma findDeadCode_ast_outcome:
  assumes "\<forall>f\<in>set files. env_readFile e f \<noteq> None"
  shows "returns_or_rejects (findDeadCode e srcDir ''ast'' files)"
proof -
  obtain w res where run: "analyzeAllFiles e files = Inr (w, res)"
    using analyzeAllFiles_loop_total [OF assms] unfolding analyzeAllFiles_def by fastforce
  have "returns_or_rejects
          (findUnusedFiles e srcDir files (w, performASTAnalysis res emptyAnalysis))"
    unfolding findUnusedFiles_def
    by (rule findUnusedFiles_loop_outcome [OF assms subset_refl])
  then show ?thesis
    unfolding findDeadCode_ast_continues [OF run]
    by (cases "findUnusedFiles e srcDir files (w, performASTAnalysis res emptyAnalysis)")
       (auto simp: returns_or_rejects_Inl split: prod.splits)
qed

text \<open>
  C9. In a tree the parser returned, take a declaration of a function or of a variable
  whose name is recorded as a definition (any definition that is not an import). The loop
  over the keys of the node reaches the \<open>Identifier\<close> the declaration binds, and
  \<open>handleIdentifier\<close> records it as a usage with the context \<open>reference\<close>. So the usage
  map of the run holds an occurrence of the name in the very file that defines it, and
  the test of \<open>performASTAnalysis\<close> finds the name used.
\<close>

theorem declared_names_referenced:
  assumes read: "env_readFile e file = Some content"
    and parse: "(if extname file = ''.ts'' \<or> extname file = ''.tsx'' then env_tsParse e content
                 else env_babelParse e content) = Some ast"
    and wf: "estree ast"
    and d: "d \<in> set (ast_definitions (traverseAST (env_cwd e) ast file emptyResult))"
           "def_type d \<noteq> Import"
    and run: "file \<in> set files" "analyzeAllFiles e files = Inr (warnings, results)"
  shows "has_reference (traverseAST (env_cwd e) ast file emptyResult) (def_name d) \<and>
         (\<exists>line. (relative (env_cwd e) (env_cwd e) file, line)
                   \<in> set (occurrences (all_usages results) (Some (def_name d)))) \<and>
         structural_isUsed (all_usages results) (def_name d)"
proof -
  let ?r = "traverseAST (env_cwd e) ast file emptyResult"
  have "declarations_referenced emptyResult ?r"
    using wf by (rule referenced_traverse(1))
  with d have ref: "has_reference ?r (def_name d)"
    by (auto simp: declarations_referenced_def emptyResult_def)
  then obtain u where u: "u \<in> set (ast_usages ?r)" "usage_name u = Some (def_name d)"
    by (auto simp: has_reference_def)
  have file_result: "ASTAnalyzer_analyzeFile e file = Inr ([], ?r)"
    using read parse by (simp add: ASTAnalyzer_analyzeFile_def Let_def)
  from run obtain acc1 acc2 where step: "analyzeAllFiles_file e file acc1 = Inr acc2"
    and grow: "\<And>x m. x \<in> set (occurrences (all_usages (snd acc2)) m) \<Longrightarrow>
                 x \<in> set (occurrences (all_usages results) m)"
    using analyzeAllFiles_loop_file [OF run(1)] run(2)
    unfolding analyzeAllFiles_def by fastforce
  have "(relative (env_cwd e) (env_cwd e) file, usage_line u)
          \<in> set (occurrences (all_usages (snd acc2)) (Some (def_name d)))"
    using step file_result fold_usage_push_mem [OF u(1)] u(2)
    by (auto elim!: analyzeAllFiles_file_usages)
  then have occ: "(relative (env_cwd e) (env_cwd e) file, usage_line u)
          \<in> set (occurrences (all_usages results) (Some (def_name d)))"
    by (rule grow)
  then have "structural_isUsed (all_usages results) (def_name d)"
    by (cases "all_usages results (Some (def_name d))")
       (auto simp: structural_isUsed_def occurrences_def)
  with ref occ show ?thesis by blast
qed

theorem declared_names_referenced_witness:
  "has_reference (traverseAST ''/proj'' scenarioA_ast ''src/a.ts'' emptyResult) ''foo'' \<and>
   (\<exists>warnings results.
      analyzeAllFiles scenarioA_env [''src/a.ts''] = Inr (warnings, results) \<and>
      structural_isUsed (all_usages results) ''foo'')"
proof -
  let ?d = "\<lparr>def_name = ''foo'', def_type = Function, def_line = 1\<rparr>"
  have readable: "\<forall>f\<in>set [''src/a.ts'']. env_readFile scenarioA_env f \<noteq> None"
    by (simp add: scenarioA_env_def)
  then obtain warnings results where
    run: "analyzeAllFiles scenarioA_env [''src/a.ts''] = Inr (warnings, results)"
    using analyzeAllFiles_loop_total [of "[''src/a.ts'']" scenarioA_env "([], emptyASTResults)"]
    unfolding analyzeAllFiles_def by fastforce
  have read: "env_readFile scenarioA_env ''src/a.ts'' = Some ''function foo(){}''"
    by (simp add: scenarioA_env_def)
  have parse: "(if extname ''src/a.ts'' = ''.ts'' \<or> extname ''src/a.ts'' = ''.tsx''
                then env_tsParse scenarioA_env ''function foo(){}''
                else env_babelParse scenarioA_env ''function foo(){}'') = Some scenarioA_ast"
    by code_simp
  have wf: "estree scenarioA_ast"
    by code_simp
  have d: "?d \<in> set (ast_definitions
                      (traverseAST (env_cwd scenarioA_env) scenarioA_ast ''src/a.ts'' emptyResult))"
    by code_simp
  have cwd: "env_cwd scenarioA_env = ''/proj''"
    by (simp add: scenarioA_env_def)
  have "has_reference
          (traverseAST (env_cwd scenarioA_env) scenarioA_ast ''src/a.ts'' emptyResult)
          (def_name ?d) \<and>
        (\<exists>line. (relative (env_cwd scenarioA_env) (env_cwd scenarioA_env) ''src/a.ts'', line)
                  \<in> set (occurrences (all_usages results) (Some (def_name ?d)))) \<and>
        structural_isUsed (all_usages results) (def_name ?d)"
    by (rule declared_names_referenced [OF read parse wf d _ _ run]) simp_all
  with run show ?thesis
    by (auto simp: cwd)
qed

text \<open>
  C6. In the structural strategy a file that is read but does not parse gives a warning
  and the empty result. A run over files that can all be read goes on past it: the
  analysis of the files returns what it returns without that file, with the warning added
  where the file stood, and \<open>findDeadCode\<close> goes on from there to the detector of unused
  files and the report. The run returns, unless the detector ends it with the
  \<open>SyntaxError\<close> of a \<open>RegExp\<close> it builds from a path.
\<close>

theorem parse_failure_is_local:
  assumes readable: "\<forall>f\<in>set (before @ file # after). env_readFile e f \<noteq> None"
    and content: "env_readFile e file = Some content"
    and fails: "(if extname file = ''.ts'' \<or> extname file = ''.tsx'' then env_tsParse e content
                 else env_babelParse e content) = None"
  shows "ASTAnalyzer_analyzeFile e file = Inr ([''Failed to parse '' @ file], emptyResult) \<and>
         (\<exists>w1 w2 results.
            analyzeAllFiles e (before @ file # after) =
              Inr (w1 @ [''Failed to parse '' @ file] @ w2, results) \<and>
            analyzeAllFiles e (before @ after) = Inr (w1 @ w2, results) \<and>
            findDeadCode e srcDir ''ast'' (before @ file # after) =
              (case findUnusedFiles e srcDir (before @ file # after)
                      (w1 @ [''Failed to parse '' @ file] @ w2,
                       performASTAnalysis results emptyAnalysis) of
                 Inl err \<Rightarrow> Inl err
               | Inr (w, a) \<Rightarrow> Inr (w, generateDeadCodeReport a))) \<and>
         returns_or_rejects (findDeadCode e srcDir ''ast'' (before @ file # after))"
proof (intro conjI)
  show "ASTAnalyzer_analyzeFile e file = Inr ([''Failed to parse '' @ file], emptyResult)"
    using content fails by (rule parse_failure_step(1))
  show "returns_or_rejects (findDeadCode e srcDir ''ast'' (before @ file # after))"
    using readable by (rule findDeadCode_ast_outcome)
  let ?warn = "''Failed to parse '' @ file"
  from readable obtain w1 a1 where
    before: "analyzeAllFiles_loop e before ([], emptyASTResults) = Inr (w1, a1)"
    using analyzeAllFiles_loop_total [of before e "([], emptyASTResults)"] by fastforce
  from readable obtain w2 a2 where
    after: "analyzeAllFiles_loop e after ([], a1) = Inr (w2, a2)"
    using analyzeAllFiles_loop_total [of after e "([], a1)"] by fastforce
  have with_file: "analyzeAllFiles e (before @ file # after) = Inr (w1 @ [?warn] @ w2, a2)"
    using before after parse_failure_step(2) [OF content fails, of w1 a1]
      analyzeAllFiles_loop_log [of e after "w1 @ [?warn]" a1]
    by (simp add: analyzeAllFiles_def analyzeAllFiles_loop_append)
  have without: "analyzeAllFiles e (before @ after) = Inr (w1 @ w2, a2)"
    using before after analyzeAllFiles_loop_log [of e after w1 a1]
    by (simp add: analyzeAllFiles_def analyzeAllFiles_loop_append)
  from with_file without findDeadCode_ast_continues [OF with_file, of srcDir]
  show "\<exists>w1 w2 results.
            analyzeAllFiles e (before @ file # after) =
              Inr (w1 @ [''Failed to parse '' @ file] @ w2, results) \<and>
            analyzeAllFiles e (before @ after) = Inr (w1 @ w2, results) \<and>
            findDeadCode e srcDir ''ast'' (before @ file # after) =
              (case findUnusedFiles e srcDir (before @ file # after)
                      (w1 @ [''Failed to parse '' @ file] @ w2,
                       performASTAnalysis results emptyAnalysis) of
                 Inl err \<Rightarrow> Inl err
               | Inr (w, a) \<Rightarrow> Inr (w, generateDeadCodeReport a))"
    by blast
qed

theorem parse_failure_is_local_witness:
  "ASTAnalyzer_analyzeFile brokenParse_env ''src/broken.js'' =
     Inr ([''Failed to parse src/broken.js''], emptyResult) \<and>
   (\<exists>w1 w2 results.
      analyzeAllFiles brokenParse_env ([] @ ''src/broken.js'' # [''src/a.ts'']) =
        Inr (w1 @ [''Failed to parse '' @ ''src/broken.js''] @ w2, results) \<and>
      analyzeAllFiles brokenParse_env ([] @ [''src/a.ts'']) = Inr (w1 @ w2, results) \<and>
      findDeadCode brokenParse_env ''src'' ''ast'' ([] @ ''src/broken.js'' # [''src/a.ts'']) =
        (case findUnusedFiles brokenParse_env ''src'' ([] @ ''src/broken.js'' # [''src/a.ts''])
                (w1 @ [''Failed to parse '' @ ''src/broken.js''] @ w2,
                 performASTAnalysis results emptyAnalysis) of
           Inl err \<Rightarrow> Inl err
         | Inr (w, a) \<Rightarrow> Inr (w, generateDeadCodeReport a))) \<and>
   returns_or_rejects
     (findDeadCode brokenParse_env ''src'' ''ast'' ([] @ ''src/broken.js'' # [''src/a.ts''])) \<and>
   map_sum id (\<lambda>r. (fst r, map fi_path (unusedFiles (snd r)), unusedFunctions (snd r)))
     (findDeadCode brokenParse_env ''src'' ''ast'' [''src/broken.js'', ''src/a.ts'']) =
     Inr ([''Failed to parse src/broken.js''], [''broken.js'', ''a.ts''], [])"
proof -
  have readable: "\<forall>f\<in>set ([] @ ''src/broken.js'' # [''src/a.ts'']).
      env_readFile brokenParse_env f \<noteq> None"
    by (simp add: brokenParse_env_def)
  have content: "env_readFile brokenParse_env ''src/broken.js'' = Some ''function (''"
    by (simp add: brokenParse_env_def)
  have fails: "(if extname ''src/broken.js'' = ''.ts'' \<or> extname ''src/broken.js'' = ''.tsx''
                then env_tsParse brokenParse_env ''function (''
                else env_babelParse brokenParse_env ''function ('') = None"
    by code_simp
  have run: "map_sum id (\<lambda>r. (fst r, map fi_path (unusedFiles (snd r)), unusedFunctions (snd r)))
     (findDeadCode brokenParse_env ''src'' ''ast'' [''src/broken.js'', ''src/a.ts'']) =
     Inr ([''Failed to parse src/broken.js''], [''broken.js'', ''a.ts''], [])"
    by code_simp
  from parse_failure_is_local [OF readable content fails, of "''src''"] run
  show ?thesis by simp
qed

section \<open>Failures to read a file\<close>

text \<open>
  C3, as the code has it. No call of \<open>readFileSync\<close> stands inside a \<open>try\<close>: in either
  strategy the run ends with the exception of the first file of the set that cannot be
  read, and prints no analysis. (A failure to parse and a failure of \<open>statSync\<close> are the
  ones the source catches.)
\<close>

theorem read_failure_aborts_run:
  assumes "first_unreadable e files = Some g"
  shows "findDeadCode e srcDir analysisMode files = Inl (FileReadFailure g)"
proof (cases "analysisMode = ''ast''")
  case True
  then show ?thesis
    using analyzeAllFiles_loop_unreadable [OF assms]
    by (simp add: findDeadCode_def analyzeAllFiles_def)
next
  case False
  then show ?thesis
    using buildUsageMap_loop_unreadable [OF assms]
    by (simp add: findDeadCode_def performRegexAnalysis_def buildUsageMap_def)
qed

theorem read_failure_aborts_run_witness:
  "first_unreadable unreadable_env [''src/a.ts'', ''src/b.ts''] = Some ''src/a.ts'' \<and>
   findDeadCode unreadable_env ''src'' ''ast'' [''src/a.ts'', ''src/b.ts''] =
     Inl (FileReadFailure ''src/a.ts'')"
proof -
  have h: "first_unreadable unreadable_env [''src/a.ts'', ''src/b.ts''] = Some ''src/a.ts''"
    by (simp add: first_unreadable_def unreadable_env_def)
  from h read_failure_aborts_run [OF h] show ?thesis
    by (rule conjI)
qed

text \<open>
  C3, as stated, fails: with \<open>src/a.ts\<close> unreadable and \<open>src/b.ts\<close> readable the run does
  not skip \<open>src/a.ts\<close> and go on to \<open>src/b.ts\<close>; in both modes it ends with the exception.
\<close>

theorem read_failure_not_skipped:
  "env_readFile unreadable_env ''src/a.ts'' = None \<and>
   env_readFile unreadable_env ''src/b.ts'' \<noteq> None \<and>
   findDeadCode unreadable_env ''src'' ''ast'' [''src/a.ts'', ''src/b.ts''] =
     Inl (FileReadFailure ''src/a.ts'') \<and>
   findDeadCode unreadable_env ''src'' ''regex'' [''src/a.ts'', ''src/b.ts''] =
     Inl (FileReadFailure ''src/a.ts'')"
  by code_simp

section \<open>The cross-reference decision\<close>

text \<open>
  C5. Adding to the usage map an occurrence of a name in a file other than the defining
  file never turns a used verdict into an unused one, for the \<open>isUsed\<close> of the lexical
  strategy and for the test of the structural strategy alike.
\<close>

theorem isUsed_monotone:
  assumes "fst occ \<noteq> filePath"
  shows "(isUsed usageMap exports filePath content name \<longrightarrow>
           isUsed (usage_push (Some name) occ usageMap) exports filePath content name) \<and>
         (structural_isUsed usageMap name \<longrightarrow>
           structural_isUsed (usage_push (Some name) occ usageMap) name)"
  using assms
  by (simp add: isUsed_def structural_isUsed_def usage_push_def Let_def list_ex_iff)

theorem isUsed_monotone_witness:
  "fst (''b.ts'', 7 :: int) \<noteq> ''a.ts'' \<and>
   isUsed Map.empty [] ''a.ts'' [] ''useThing'' \<and>
   isUsed (usage_push (Some ''useThing'') (''b.ts'', 7) Map.empty) [] ''a.ts'' [] ''useThing''"
proof -
  have h: "fst (''b.ts'', 7 :: int) \<noteq> ''a.ts''" by simp
  have used: "isUsed Map.empty [] ''a.ts'' [] ''useThing''"
    by code_simp
  from isUsed_monotone [OF h, THEN conjunct1, THEN mp, OF used] h used
  show ?thesis by simp
qed

text \<open>
  C1 fails on the code, in both modes. On the file set of scenario A, where \<open>foo\<close> is
  declared in \<open>src/a.ts\<close> and referenced nowhere, each strategy records the definition of
  \<open>foo\<close> (the structural one twice: the body of a program is traversed by its case of the
  switch and again by the loop over the keys) and the run reports no unused function:
  the structural strategy counts the identifier of the declaration itself as a usage,
  and the local patterns of \<open>isUsed\<close> match the text of the declaration itself.
\<close>

theorem scenarioA_reports_nothing:
  "map (\<lambda>d. (def_name d, def_type d))
     (ast_definitions (traverseAST ''/proj'' scenarioA_ast ''src/a.ts'' emptyResult)) =
     [(''foo'', Function), (''foo'', Function)] \<and>
   map_sum id (\<lambda>r. unusedFunctions (snd r))
     (findDeadCode scenarioA_env ''src'' ''ast'' [''src/a.ts'']) = Inr [] \<and>
   fd_functions (extractDefinitions ''/proj'' ''function foo(){}'' ''src/a.ts'') = [''foo''] \<and>
   map_sum id (\<lambda>r. unusedFunctions (snd r))
     (findDeadCode scenarioA_env ''src'' ''regex'' [''src/a.ts'']) = Inr []"
  by code_simp

section \<open>Recorded names\<close>

lemma set_set_add: "set (set_add x xs) = insert x (set xs)"
  by (auto simp: set_add_def)

lemma filtered_map_push:
  "filtered_map um \<Longrightarrow> (\<And>n. k = Some n \<Longrightarrow> \<not> isBuiltinOrCommon n) \<Longrightarrow>
   filtered_map (usage_push k occ um)"
  by (auto simp: filtered_map_def usage_push_def)

lemma map_push_values:
  "entry \<in> set (map_push k d m) \<Longrightarrow> x \<in> set (snd entry) \<Longrightarrow>
   x = d \<or> (\<exists>old\<in>set m. x \<in> set (snd old))"
  by (induction m) (auto split: if_splits)

lemma names_filtered_analyzeFile:
  "ASTAnalyzer_analyzeFile e file = Inr (w, result) \<Longrightarrow> names_filtered result"
proof -
  have empty: "names_filtered emptyResult"
    by (simp add: names_filtered_def emptyResult_def)
  assume "ASTAnalyzer_analyzeFile e file = Inr (w, result)"
  then show ?thesis
    using empty names_filtered_traverseAST [OF empty]
    by (auto simp: ASTAnalyzer_analyzeFile_def Let_def split: option.splits if_splits)
qed

lemma filtered_results_file:
  assumes "filtered_results (snd acc)" "analyzeAllFiles_file e file acc = Inr acc'"
  shows "filtered_results (snd acc')"
proof -
  from assms(2) obtain w result where res: "ASTAnalyzer_analyzeFile e file = Inr (w, result)"
    by (cases "ASTAnalyzer_analyzeFile e file") (auto simp: analyzeAllFiles_file_def)
  then have nf: "names_filtered result" by (rule names_filtered_analyzeFile)
  let ?rel = "relative (env_cwd e) (env_cwd e) file"
  have us: "filtered_map (fold (\<lambda>u m. usage_push (usage_name u) (?rel, usage_line u) m)
                (ast_usages result) (all_usages (snd acc)))"
    by (rule fold_invariant [where P = filtered_map])
       (use assms(1) nf in \<open>auto simp: filtered_results_def names_filtered_def
          intro: filtered_map_push\<close>)
  have ds: "\<forall>entry\<in>set (fold (\<lambda>d m. map_push (?rel @ '':'' @ def_name d) d m)
                (ast_definitions result) (all_definitions (snd acc))).
              \<forall>d\<in>set (snd entry). \<not> isBuiltinOrCommon (def_name d)"
    by (rule fold_invariant [where P = "\<lambda>m. \<forall>entry\<in>set m. \<forall>d\<in>set (snd entry).
          \<not> isBuiltinOrCommon (def_name d)"])
       (use assms(1) nf in \<open>auto simp: filtered_results_def names_filtered_def
          dest!: map_push_values\<close>)
  from assms(2) res us ds show ?thesis
    by (auto simp: analyzeAllFiles_file_def Let_def filtered_results_def)
qed

lemma filtered_results_loop:
  "filtered_results (snd acc) \<Longrightarrow> analyzeAllFiles_loop e files acc = Inr acc' \<Longrightarrow>
   filtered_results (snd acc')"
proof (induction files arbitrary: acc)
  case Nil
  then show ?case by simp
next
  case (Cons f files)
  then show ?case
    by (cases "analyzeAllFiles_file e f acc") (auto dest: filtered_results_file)
qed

lemma filtered_map_match:
  "filtered_map um \<Longrightarrow> filtered_map (usages_of_match rel content pattern m um)"
  unfolding usages_of_match_def
  by (rule fold_invariant [where P = filtered_map])
     (auto simp: isBuiltinOrCommon_def intro: filtered_map_push split: option.splits)

lemma filtered_map_file:
  "filtered_map um \<Longrightarrow> filtered_map (usages_of_file rel content um)"
  unfolding usages_of_file_def
  by (rule fold_invariant [where P = filtered_map], rule fold_invariant [where P = filtered_map])
     (auto intro: filtered_map_match)

lemma filtered_map_loop:
  "filtered_map um \<Longrightarrow> buildUsageMap_loop e srcDir files um = Inr um' \<Longrightarrow> filtered_map um'"
  by (induction files arbitrary: um) (auto split: option.splits intro: filtered_map_file)

lemma for_matches_invariant:
  "(\<And>m acc. P acc \<Longrightarrow> P (body m acc)) \<Longrightarrow> P acc \<Longrightarrow> P (for_matches patterns text body acc)"
  unfolding for_matches_def
  by (rule fold_invariant [where P = P], rule fold_invariant [where P = P]) auto

lemma filtered_component:
  "filtered_definitions defs \<Longrightarrow>
   filtered_definitions (component_match cwd content filePath m defs)"
  by (auto simp: component_match_def filtered_definitions_def isBuiltinOrCommon_def set_set_add
      Let_def split: option.splits)

lemma filtered_function:
  "filtered_definitions defs \<Longrightarrow> filtered_definitions (function_match content m defs)"
  by (auto simp: function_match_def filtered_definitions_def isBuiltinOrCommon_def set_set_add
      Let_def split: option.splits)

lemma filtered_variable:
  "filtered_definitions defs \<Longrightarrow> filtered_definitions (variable_match content stripped m defs)"
  by (auto simp: variable_match_def filtered_definitions_def isBuiltinOrCommon_def set_set_add
      Let_def split: option.splits)

lemma filtered_import_list:
  "filtered_definitions defs \<Longrightarrow> filtered_definitions (add_import_list names defs)"
  unfolding add_import_list_def
  by (rule fold_invariant [where P = filtered_definitions])
     (auto simp: filtered_definitions_def isBuiltinOrCommon_def set_set_add Let_def)

lemma filtered_import_name:
  "filtered_definitions defs \<Longrightarrow> filtered_definitions (add_import_name name defs)"
  by (auto simp: add_import_name_def filtered_definitions_def isBuiltinOrCommon_def set_set_add)

lemma filtered_import:
  "filtered_definitions defs \<Longrightarrow> filtered_definitions (import_match m defs)"
  by (auto simp: import_match_def intro: filtered_import_list filtered_import_name
      split: option.splits)

lemma filtered_type_import:
  "filtered_definitions defs \<Longrightarrow> filtered_definitions (type_import_match m defs)"
  by (auto simp: type_import_match_def intro: filtered_import_list split: option.splits)

lemma filtered_extractDefinitions:
  "filtered_definitions (extractDefinitions cwd content filePath)"
proof -
  let ?stripped = "removeComments content"
  let ?d1 = "for_matches PATTERNS_component ?stripped (component_match cwd content filePath)
               emptyDefinitions"
  let ?d2 = "for_matches PATTERNS_function ?stripped (function_match content) ?d1"
  let ?d3 = "for_matches PATTERNS_variable ?stripped (variable_match content ?stripped) ?d2"
  let ?d4 = "for_matches PATTERNS_import content import_match ?d3"
  have "filtered_definitions emptyDefinitions"
    by (simp add: filtered_definitions_def emptyDefinitions_def)
  then have "filtered_definitions ?d1"
    by (rule for_matches_invariant [where P = filtered_definitions, rotated])
       (rule filtered_component)
  then have "filtered_definitions ?d2"
    by (rule for_matches_invariant [where P = filtered_definitions, rotated])
       (rule filtered_function)
  then have "filtered_definitions ?d3"
    by (rule for_matches_invariant [where P = filtered_definitions, rotated])
       (rule filtered_variable)
  then have "filtered_definitions ?d4"
    by (rule for_matches_invariant [where P = filtered_definitions, rotated])
       (rule filtered_import)
  then have "filtered_definitions
      (fold type_import_match (exec_all typeImportPattern content 0) ?d4)"
    by (rule fold_invariant [where P = filtered_definitions, rotated])
       (rule filtered_type_import)
  then show ?thesis
    by (simp add: extractDefinitions_def Let_def)
qed

text \<open>
  Where a name is recorded the guard holds. A name in the builtin table, or one the
  common-pattern test accepts, is not a usage or a definition in the collections of the
  structural strategy, not a key of the usage map of the lexical strategy, and not in the
  components, functions, variables or imports the lexical strategy collects from a file
  (from which it names its issues).
\<close>

lemma guarded_names_not_collected:
  assumes "isBuiltinOrCommon name"
  shows "(analyzeAllFiles e files = Inr (warnings, results) \<longrightarrow>
            all_usages results (Some name) = None \<and>
            (\<forall>entry\<in>set (all_definitions results). \<forall>d\<in>set (snd entry). def_name d \<noteq> name)) \<and>
         (buildUsageMap e srcDir files = Inr usageMap \<longrightarrow> usageMap (Some name) = None) \<and>
         name \<notin> set (fd_components (extractDefinitions cwd content filePath)) \<union>
                set (fd_functions (extractDefinitions cwd content filePath)) \<union>
                set (fd_variables (extractDefinitions cwd content filePath)) \<union>
                set (fd_imports (extractDefinitions cwd content filePath))"
proof (intro conjI impI)
  assume "analyzeAllFiles e files = Inr (warnings, results)"
  moreover have "filtered_results (snd ([] :: string list, emptyASTResults))"
    by (simp add: filtered_results_def filtered_map_def emptyASTResults_def)
  ultimately have fr: "filtered_results results"
    unfolding analyzeAllFiles_def
    using filtered_results_loop [of "([], emptyASTResults)" e files "(warnings, results)"]
    by simp
  then show "all_usages results (Some name) = None"
    using assms by (simp add: filtered_results_def filtered_map_def)
  from fr show "\<forall>entry\<in>set (all_definitions results). \<forall>d\<in>set (snd entry). def_name d \<noteq> name"
    using assms by (auto simp: filtered_results_def)
next
  assume "buildUsageMap e srcDir files = Inr usageMap"
  moreover have "filtered_map Map.empty" by (simp add: filtered_map_def)
  ultimately have "filtered_map usageMap"
    unfolding buildUsageMap_def by (auto dest: filtered_map_loop)
  then show "usageMap (Some name) = None"
    using assms by (simp add: filtered_map_def)
next
  show "name \<notin> set (fd_components (extractDefinitions cwd content filePath)) \<union>
                set (fd_functions (extractDefinitions cwd content filePath)) \<union>
                set (fd_variables (extractDefinitions cwd content filePath)) \<union>
                set (fd_imports (extractDefinitions cwd content filePath))"
    using filtered_extractDefinitions [of cwd content filePath] assms
    unfolding filtered_definitions_def by blast
qed

lemma buildUsageMap_loop_total:
  "\<forall>f\<in>set files. env_readFile e f \<noteq> None \<Longrightarrow>
   \<exists>um'. buildUsageMap_loop e srcDir files um = Inr um'"
  by (induction files arbitrary: um) auto

lemma guarded_names_not_collected_div:
  "isBuiltinOrCommon ''div'' \<and>
   (\<exists>warnings results.
      analyzeAllFiles div_env [''src/d.ts''] = Inr (warnings, results) \<and>
      all_usages results (Some ''div'') = None) \<and>
   (\<exists>usageMap.
      buildUsageMap div_env ''src'' [''src/d.ts''] = Inr usageMap \<and>
      usageMap (Some ''div'') = None) \<and>
   ''div'' \<notin> set (fd_functions (extractDefinitions ''/proj'' ''function div(){}'' ''src/d.ts''))"
proof -
  have h: "isBuiltinOrCommon ''div''"
    by (simp add: isBuiltinOrCommon_def BUILT_INS_has_def BUILT_INS_def)
  have readable: "\<forall>f\<in>set [''src/d.ts'']. env_readFile div_env f \<noteq> None"
    by (simp add: div_env_def)
  obtain warnings results where
    run: "analyzeAllFiles div_env [''src/d.ts''] = Inr (warnings, results)"
    using analyzeAllFiles_loop_total [OF readable, of "([], emptyASTResults)"]
    unfolding analyzeAllFiles_def by fastforce
  obtain usageMap where um: "buildUsageMap div_env ''src'' [''src/d.ts''] = Inr usageMap"
    using buildUsageMap_loop_total [OF readable, of "''src''" Map.empty]
    unfolding buildUsageMap_def by blast
  from guarded_names_not_collected [OF h, of div_env "[''src/d.ts'']" warnings results
      "''src''" usageMap "''/proj''" "''function div(){}''" "''src/d.ts''"] run um h
  show ?thesis by auto
qed

text \<open>
  C2 fails on the code in the report of the structural strategy. \<open>performASTAnalysis\<close>
  does not take the name of an issue from the definition: it splits the key
  \<open>path:name\<close> at every colon and takes the second part. For the file
  \<open>src/x:div:y.ts\<close>, which declares \<open>foo\<close>, the key is \<open>src/x:div:y.ts:foo\<close> and the
  second part is \<open>div\<close>, a name of the builtin table: no usage of \<open>div\<close> is recorded, so
  the run lists \<open>div\<close> among the unused functions (once for each of the two records of
  the declaration).
\<close>

theorem builtin_name_reported:
  "isBuiltinOrCommon ''div'' \<and>
   map_sum id (\<lambda>r. map fst (all_definitions (snd r)))
     (analyzeAllFiles colon_env [''src/x:div:y.ts'']) = Inr [''src/x:div:y.ts:foo''] \<and>
   map_sum id (\<lambda>r. map (\<lambda>i. (issue_name i, issue_file i, issue_type i))
                         (unusedFunctions (snd r)))
     (findDeadCode colon_env ''src'' ''ast'' [''src/x:div:y.ts'']) =
     Inr [(''div'', ''src/x'', Function), (''div'', ''src/x'', Function)]"
  by code_simp

section \<open>The entry-point predicate and the unused-file detector\<close>

lemma isNextJsEntryPoint_basename:
  "basename filePath \<in> set appRouterPatterns \<union> set pageRouterPatterns \<Longrightarrow>
   isNextJsEntryPoint cwd filePath"
  by (auto simp: isNextJsEntryPoint_def Let_def)

lemma isNextJsEntryPoint_listed:
  "set [''page.tsx'', ''layout.ts'', ''route.ts'', ''middleware.ts'', ''_app.tsx'',
        ''_document.tsx''] \<subseteq> set appRouterPatterns \<union> set pageRouterPatterns"
  by (simp add: appRouterPatterns_def pageRouterPatterns_def)

lemma isNextJsEntryPoint_inner_segment:
  "str_includes (relative cwd cwd filePath) ''/app/'' \<or>
   str_includes (relative cwd cwd filePath) ''/pages/'' \<Longrightarrow>
   isNextJsEntryPoint cwd filePath"
  by (auto simp: isNextJsEntryPoint_def Let_def)

text \<open>
  C7 holds for the basenames it lists (\<open>isNextJsEntryPoint_basename\<close>,
  \<open>isNextJsEntryPoint_listed\<close>) and for a path whose form relative to the working
  directory has \<open>/app/\<close> or \<open>/pages/\<close> inside it. It fails for a path whose routing root is
  the first segment of that relative form, which no separator precedes: with the working
  directory \<open>/proj\<close>, neither \<open>app/dashboard/widget.tsx\<close> nor
  \<open>/proj/pages/about/team.tsx\<close> is an entry point for the code.
\<close>

theorem isNextJsEntryPoint_misses_leading_root:
  "isNextJsEntryPoint ''/proj'' ''app/dashboard/widget.tsx'' = False \<and>
   isNextJsEntryPoint ''/proj'' ''/proj/pages/about/team.tsx'' = False \<and>
   isNextJsEntryPoint ''/proj'' ''src/app/dashboard/widget.tsx'' = True"
  by code_simp

text \<open>For a plain path the expression is the one the model reads, whatever the runtime;
  the paths of the file sets above are plain in every spelling.\<close>

lemma importRegex_plain:
  "plain_path importPath \<Longrightarrow>
   importRegex e importPath = Some (rx_test (plainImportRegex importPath))"
  by (simp add: importRegex_def)

lemma concrete_paths_plain:
  "list_all (\<lambda>file. list_all plain_path (possibleImportPaths ''/proj'' ''src'' file))
     [''src/a.ts'', ''src/b.ts'', ''src/broken.js'', ''src/helper123.ts'', ''src/d.ts'',
      ''src/x:div:y.ts'']"
  by code_simp

text \<open>
  C4 fails on the code in its first condition. \<open>src/b.ts\<close> imports \<open>./helper123\<close> with an
  ordinary import-from-string, yet the detector finds no importer of \<open>src/helper123.ts\<close>
  and reports the file unused: its pattern wants the letters \<open>s\<close> where the import has
  white space, and matches \<open>froms'./helper123'\<close> instead.
\<close>

theorem imported_file_reported_unused:
  "isImported imported_helper_env (possibleImportPaths ''/proj'' ''src'' ''src/helper123.ts'')
     ''src/helper123.ts'' [''src/helper123.ts'', ''src/b.ts''] = Inr False \<and>
   map_sum id (\<lambda>r. map fi_path (unusedFiles (snd r)))
     (findUnusedFiles imported_helper_env ''src'' [''src/helper123.ts'', ''src/b.ts'']
        ([], emptyAnalysis)) = Inr [''helper123.ts'', ''b.ts''] \<and>
   map_sum id (\<lambda>r. map fi_path (unusedFiles (snd r)))
     (findDeadCode imported_helper_env ''src'' ''regex'' [''src/helper123.ts'', ''src/b.ts''])
     = Inr [''b.ts'', ''helper123.ts''] \<and>
   map_option (\<lambda>test. test (''froms'' @ [CHR 0x27] @ ''./helper123'' @ [CHR 0x27]))
     (importRegex imported_helper_env ''./helper123'') = Some True"
  by code_simp

end
